theory Spec2Isabelle
  imports Complex_Main "HOL-Library.AList"
begin

section \<open>Extraction diagnostics and worker recycling\<close>

text \<open>
  A shallow embedding of \<^verbatim>\<open>server/utils/debug-logger.ts\<close> (class \<^verbatim>\<open>DebugLogger\<close>) and
  of the process recycling utilities (classes \<^verbatim>\<open>MemoryMonitor\<close> and
  \<^verbatim>\<open>ProcessRecyclingManager\<close>).

  Conventions of the embedding:
  \<^item> JavaScript numbers that hold millisecond timestamps, byte counts and counters are
    \<open>int\<close>; numbers that result from a division (megabytes, averages) are \<open>rat\<close>.
    Rounding of IEEE doubles is not modelled.
  \<^item> An optional property (\<^verbatim>\<open>x?: T\<close>, or a property that may be \<^verbatim>\<open>undefined\<close>) is an
    \<open>option\<close>.
  \<^item> Every reading of the clock (\<^verbatim>\<open>Date.now()\<close>) and of the memory counters
    (\<^verbatim>\<open>process.memoryUsage()\<close>) is an explicit argument of the function that takes it,
    one argument per reading, in the order of the readings in the source.
  \<^item> A method that mutates the logger, prints to the console or writes a file takes the
    state \<open>runtime\<close> and returns the new one. A method that can throw and leaves the state
    as it was when it throws returns \<open>js_error + runtime\<close>, with \<open>Inl\<close> for the error; a
    method that can throw after it has changed the state returns the error, if any,
    together with the state it leaves.
  \<^item> The source is a module (it has \<^verbatim>\<open>import\<close> and \<^verbatim>\<open>export\<close> declarations), so its
    code is strict mode code.
  \<^item> Task ids are taken to be single path segments other than \<^verbatim>\<open>summary.jsonl\<close>, so that
    \<^verbatim>\<open>path.join\<close> has nothing to normalise.
  \<^item> Outside the model: failures of the file system calls other than those that the
    kind of a directory entry decides (a file where a directory is needed, and the
    reverse), and the formatting of the console messages (a message is its kind and
    the values it interpolates). \<^verbatim>\<open>MemoryMonitor.report\<close> and \<^verbatim>\<open>reportStatus\<close> only print
    and are left out.
\<close>

subsection \<open>Data model of the debug logger\<close>

text \<open>
  The errors thrown: by a property access on \<^verbatim>\<open>undefined\<close> or \<^verbatim>\<open>null\<close> and by an
  assignment to a property of a primitive value (\<^verbatim>\<open>TypeError\<close>), by \<^verbatim>\<open>JSON.parse\<close>
  (\<^verbatim>\<open>SyntaxError\<close>), and by the file system calls with their error codes. The last value
  is no error of the program: it marks a call on a clock reading that \<^verbatim>\<open>Date.now()\<close> cannot
  return and for which the model does not say what the program does.
\<close>

datatype js_error = TypeError | SyntaxError | EISDIR | ENOTDIR | ENOENT | OutsideModel

text \<open>A number that may have become not-a-number (\<^verbatim>\<open>undefined++\<close> is \<^verbatim>\<open>NaN\<close>).\<close>

datatype jsnum = Fin int | NaN

fun increment :: "jsnum option \<Rightarrow> jsnum" where
  "increment (Some (Fin n)) = Fin (n + 1)"
| "increment (Some NaN) = NaN"
| "increment None = NaN"

text \<open>The keys of \<^verbatim>\<open>ImageDebugSession["stages"]\<close>.\<close>

datatype stage_name =
    QueueAdded | BrowserLaunch | Navigation | CookieBanner | InitialWait
  | MetadataExtraction | MetadataNormalization | ShadowRootSetup | CssExpansion
  | ViewportResize | CanvasExtraction | ImageStorage

fun stage_key :: "stage_name \<Rightarrow> string" where
  "stage_key QueueAdded = ''queueAdded''"
| "stage_key BrowserLaunch = ''browserLaunch''"
| "stage_key Navigation = ''navigation''"
| "stage_key CookieBanner = ''cookieBanner''"
| "stage_key InitialWait = ''initialWait''"
| "stage_key MetadataExtraction = ''metadataExtraction''"
| "stage_key MetadataNormalization = ''metadataNormalization''"
| "stage_key ShadowRootSetup = ''shadowRootSetup''"
| "stage_key CssExpansion = ''cssExpansion''"
| "stage_key ViewportResize = ''viewportResize''"
| "stage_key CanvasExtraction = ''canvasExtraction''"
| "stage_key ImageStorage = ''imageStorage''"

text \<open>The result of \<^verbatim>\<open>process.memoryUsage()\<close>, in bytes.\<close>

record MemoryUsage =
  mu_rss :: int
  mu_heapTotal :: int
  mu_heapUsed :: int
  mu_external :: int

text \<open>The \<^verbatim>\<open>memory\<close> property of a \<^verbatim>\<open>TimingCheckpoint\<close>, in megabytes.\<close>

record MemorySnapshot =
  heapUsed :: rat
  heapTotal :: rat
  external :: rat
  rss :: rat

record Dimensions =
  width :: int
  height :: int

record DomState =
  canvasFound :: bool
  canvasDimensions :: "Dimensions option"
  shadowRootFound :: bool
  smartframeEmbedFound :: bool
  selectors :: "string list"

record ExtractionDetails =
  format :: "string option"
  size :: "int option"
  dimensions :: "Dimensions option"
  checksumStable :: "bool option"

record MethodAttempt =
  methodName :: string
  methodNumber :: int
  attempt_startTime :: int
  attempt_endTime :: "int option"
  duration :: "int option"
  attempt_success :: bool
  attempt_error :: "string option"
  domState :: "DomState option"
  extractionDetails :: "ExtractionDetails option"

text \<open>
  The values a stage-specific detail property other than those of the canvas-extraction
  stage can hold (\<^verbatim>\<open>dismissed\<close>, \<^verbatim>\<open>waitDuration\<close>, \<^verbatim>\<open>fieldsExtracted\<close>, \<^verbatim>\<open>steps\<close>, ...).
\<close>

datatype detail_value =
    DBool bool | DNum rat | DStr string | DStrs "string list" | DSteps "(string \<times> int) list"

text \<open>
  A stage object as \<^verbatim>\<open>recordCheckpoint\<close> and \<^verbatim>\<open>recordMethodAttempt\<close> build it: the
  properties of \<^verbatim>\<open>TimingCheckpoint\<close>, the properties of the canvas-extraction stage that
  the code reads and writes, and the remaining detail properties by key. The type cast
  \<^verbatim>\<open>as any\<close> in \<^verbatim>\<open>recordCheckpoint\<close> lets a stage object lack \<^verbatim>\<open>methods\<close> and
  \<^verbatim>\<open>totalAttempts\<close>, so both are optional here.
\<close>

record Stage =
  name :: string
  timestamp :: int
  elapsed :: int
  memory :: "MemorySnapshot option"
  mode :: "string option"
  totalAttempts :: "jsnum option"
  successfulMethod :: "string option"
  methods :: "MethodAttempt list option"
  other :: "string \<rightharpoonup> detail_value"

text \<open>
  The argument \<^verbatim>\<open>details?: any\<close> of \<^verbatim>\<open>recordCheckpoint\<close>, restricted to objects whose
  properties, where present, have the types of the stage declarations.
\<close>

record StageDetails =
  d_name :: "string option"
  d_timestamp :: "int option"
  d_elapsed :: "int option"
  d_memory :: "MemorySnapshot option"
  d_mode :: "string option"
  d_totalAttempts :: "jsnum option"
  d_successfulMethod :: "string option"
  d_methods :: "MethodAttempt list option"
  d_other :: "string \<rightharpoonup> detail_value"

record HeapRss =
  hr_heapUsed :: rat
  hr_rss :: rat

text \<open>The reason text that \<^verbatim>\<open>ProcessRecyclingManager.shouldRecycle\<close> formats.\<close>

datatype recycle_reason =
    TaskLimit int int          \<comment> \<open>\<^verbatim>\<open>task limit (tasksCompleted/maxTasksPerCycle)\<close>\<close>
  | MemoryThreshold rat int    \<comment> \<open>\<^verbatim>\<open>memory threshold (heapUsed MB > memoryThresholdMB MB)\<close>\<close>
  | NoReason                   \<comment> \<open>\<^verbatim>\<open>none\<close>\<close>

text \<open>
  The process state of a session, and equally a partial update of it
  (\<^verbatim>\<open>Partial<ImageDebugSession["processState"]>\<close>): every property is optional. The last
  five properties are those the recycling manager passes beyond the declared ones.
\<close>

record ProcessState =
  browserRestarts :: "int option"
  memoryAtStart :: "HeapRss option"
  memoryAtEnd :: "HeapRss option"
  taskNumber :: "int option"
  queuePosition :: "int option"
  memoryMB :: "rat option"
  recycleReason :: "recycle_reason option"
  willRecycle :: "bool option"
  browserRestart :: "bool option"
  previousTasksCompleted :: "int option"

record Outcome =
  success :: bool
  error :: "string option"
  errorStack :: "string option"
  skipped :: "bool option"
  skipReason :: "string option"
  retryAttempt :: "int option"

record Diagnostics =
  screenshotPath :: "string option"
  htmlSnapshotPath :: "string option"
  consoleLogs :: "string list option"
  networkErrors :: "string list option"

record ImageDebugSession =
  imageId :: string
  jobId :: string
  url :: string
  startTime :: int
  endTime :: "int option"
  totalDuration :: "int option"
  stages :: "stage_name \<rightharpoonup> Stage"
  processState :: ProcessState
  outcome :: Outcome
  diagnostics :: "Diagnostics option"

text \<open>One line of \<^verbatim>\<open>summary.jsonl\<close>, as \<^verbatim>\<open>appendToSummary\<close> builds it.\<close>

record SummaryLine =
  sl_timestamp :: int
  sl_imageId :: string
  sl_jobId :: string
  sl_duration :: "int option"
  sl_success :: bool
  sl_skipped :: "bool option"
  sl_error :: "string option"
  sl_successfulMethod :: "string option"
  sl_totalMethodAttempts :: "jsnum option"
  sl_metadataSuccess :: "detail_value option"
  sl_metadataTimedOut :: "detail_value option"
  sl_browserRestarts :: "int option"
  sl_memoryUsed :: "rat option"

text \<open>
  A JSON text that parses to something other than a session: \<^verbatim>\<open>null\<close>, a boolean, number
  or string, an array, or an object that has no property \<^verbatim>\<open>stages\<close> or has \<^verbatim>\<open>null\<close> for
  it (such as \<^verbatim>\<open>{}\<close>). On each of them \<^verbatim>\<open>session.stages.canvasExtraction\<close> throws a
  \<^verbatim>\<open>TypeError\<close>.
\<close>

datatype other_json = JsonNull | JsonPrimitive | JsonArray | JsonObjectWithoutStages

text \<open>
  An entry of the sessions directory: a file with the JSON text of a session, which
  \<^verbatim>\<open>JSON.parse\<close> turns back into the session (typed \<^verbatim>\<open>ImageDebugSession\<close> in the source); a
  file with another JSON text; a file with text on which \<^verbatim>\<open>JSON.parse\<close> throws (a
  truncated or corrupted record); or a directory. The JSON text holds \<^verbatim>\<open>null\<close> where the
  session holds \<^verbatim>\<open>NaN\<close>, which can only be the counter \<^verbatim>\<open>totalAttempts\<close>; nothing reads
  that counter from a file. A file whose JSON text is an object with a \<^verbatim>\<open>stages\<close> object
  that departs from the declared shape elsewhere has no value here.
\<close>

datatype dir_entry =
    SessionJson ImageDebugSession | OtherJson other_json | Unparseable | Directory

datatype artifact = Screenshot "nat list" | HtmlSnapshot string

text \<open>The calls of \<^verbatim>\<open>console.warn\<close> and \<^verbatim>\<open>console.log\<close>, by message and interpolated values.\<close>

datatype console_line =
    WarnNoSession string
  | LogStarted string
  | LogCheckpoint string string int rat
  | LogMethodStarting string int string
  | LogMethodResult string int string bool "int option" "DomState option" "string option"
  | LogSessionComplete string bool "bool option" "int option"
  | LogScreenshotSaved string string
  | LogHtmlSaved string string
  | LogSessionSaved string
  | LogInitialHeap int
  | WarnMemoryThreshold rat int
  | LogTaskLimit int int
  | LogRecyclingNeeded recycle_reason
  | LogMemoryStats rat rat rat
  | LogCycleReset

text \<open>
  The module-level singleton \<^verbatim>\<open>debugLogger\<close> (its map \<^verbatim>\<open>currentSession\<close> and its
  directory \<^verbatim>\<open>sessionsDir\<close>) together with what it acts on: the console; the entries of
  the sessions directory other than \<^verbatim>\<open>summary.jsonl\<close>, by name, in the order
  \<^verbatim>\<open>readdirSync\<close> lists them; the summary log (\<open>None\<close> while \<^verbatim>\<open>summary.jsonl\<close> does not
  exist); the diagnostic artifacts by task directory and file name; and the names of
  the enumerable properties that \<^verbatim>\<open>getMethodStatistics\<close> has written onto
  \<^verbatim>\<open>Object.prototype\<close>, each of which holds \<^verbatim>\<open>NaN\<close>.
\<close>

record runtime =
  sessionsDir :: string
  currentSession :: "string \<rightharpoonup> ImageDebugSession"
  console :: "console_line list"
  sessionFiles :: "(string \<times> dir_entry) list"
  summaryFile :: "SummaryLine list option"
  diagnosticFiles :: "(string \<times> string) \<rightharpoonup> artifact"
  prototypeKeys :: "string list"

definition logToConsole :: "console_line \<Rightarrow> runtime \<Rightarrow> runtime" where
  "logToConsole message w = w\<lparr>console := console w @ [message]\<rparr>"

subsection \<open>Helpers for the JavaScript idioms of the source\<close>

text \<open>
  Object spread of one optional property: \<^verbatim>\<open>{ ...{p: c}, ...{p: d} }\<close> keeps \<open>c\<close> unless
  the right operand has the property.
\<close>

fun override :: "'a option \<Rightarrow> 'a option \<Rightarrow> 'a option" where
  "override c (Some v) = Some v"
| "override c None = c"

text \<open>\<^verbatim>\<open>Math.round(bytes / 1024 / 1024 * 100) / 100\<close>.\<close>

definition roundMB :: "int \<Rightarrow> rat" where
  "roundMB b = of_int \<lfloor>of_int b / 1024 / 1024 * 100 + (1 / 2 :: rat)\<rfloor> / 100"

text \<open>\<^verbatim>\<open>bytes / 1024 / 1024\<close>.\<close>

definition toMB :: "int \<Rightarrow> rat" where
  "toMB b = of_int b / 1024 / 1024"

text \<open>\<^verbatim>\<open>Array.prototype.find\<close> followed by assignments to the properties of the element found.\<close>

fun update_first :: "('a \<Rightarrow> bool) \<Rightarrow> ('a \<Rightarrow> 'a) \<Rightarrow> 'a list \<Rightarrow> 'a list" where
  "update_first P f [] = []"
| "update_first P f (x # xs) = (if P x then f x # xs else x # update_first P f xs)"

text \<open>\<^verbatim>\<open>String.prototype.endsWith\<close>.\<close>

definition endsWith :: "string \<Rightarrow> string \<Rightarrow> bool" where
  "endsWith s suffix =
     (length suffix \<le> length s \<and> drop (length s - length suffix) s = suffix)"

text \<open>\<^verbatim>\<open>path.join\<close> of two segments that need no normalisation.\<close>

definition join :: "string \<Rightarrow> string \<Rightarrow> string" where
  "join dir file = dir @ ''/'' @ file"

text \<open>
  The text of an integral number inside a template literal: all its digits while its
  absolute value is below \<open>10 ^ 21\<close>. From there on JavaScript prints the exponent
  form of the nearest double, which is not modelled: the result is \<open>None\<close>. A reading
  of \<^verbatim>\<open>Date.now()\<close> is a time value, at most \<open>864 * 10 ^ 13\<close> in absolute value.
\<close>

fun digit :: "nat \<Rightarrow> char" where
  "digit n = (''0123456789'' ! (n mod 10))"

fun toDecimal :: "nat \<Rightarrow> string \<Rightarrow> string" where
  "toDecimal n acc = (if 10 \<le> n then toDecimal (n div 10) (digit n # acc) else digit n # acc)"

declare toDecimal.simps [simp del]

definition numberText :: "int \<Rightarrow> string option" where
  "numberText i =
     (if 10 ^ 21 \<le> \<bar>i\<bar> then None
      else if 0 \<le> i then Some (toDecimal (nat i) [])
      else Some (CHR ''-'' # toDecimal (nat (- i)) []))"

text \<open>
  Truthiness of an optional number (\<^verbatim>\<open>if (!session.endTime)\<close>): \<^verbatim>\<open>undefined\<close> and 0 are
  falsy. Likewise an optional string (\<^verbatim>\<open>if (imageId)\<close>, \<^verbatim>\<open>if (htmlSnapshot)\<close>) is falsy
  when absent or empty, which the definitions below write as a case distinction.
\<close>

fun truthy_number :: "int option \<Rightarrow> bool" where
  "truthy_number None = False"
| "truthy_number (Some n) = (n \<noteq> 0)"

subsection \<open>The debug logger\<close>

definition startImageSession :: "string \<Rightarrow> string \<Rightarrow> string \<Rightarrow> int \<Rightarrow> runtime \<Rightarrow> runtime" where
  "startImageSession iid jid u now w =
     (let session =
        \<lparr>imageId = iid, jobId = jid, url = u, startTime = now,
         endTime = None, totalDuration = None,
         stages = Map.empty,
         processState =
           \<lparr>browserRestarts = Some 0, memoryAtStart = None, memoryAtEnd = None,
            taskNumber = None, queuePosition = None, memoryMB = None,
            recycleReason = None, willRecycle = None, browserRestart = None,
            previousTasksCompleted = None\<rparr>,
         outcome =
           \<lparr>success = False, error = None, errorStack = None, skipped = None,
            skipReason = None, retryAttempt = None\<rparr>,
         diagnostics = None\<rparr>
      in logToConsole (LogStarted iid)
           (w\<lparr>currentSession := (currentSession w)(iid \<mapsto> session)\<rparr>))"

text \<open>\<^verbatim>\<open>{ ...checkpoint, ...details }\<close>.\<close>

fun spread :: "Stage \<Rightarrow> StageDetails option \<Rightarrow> Stage" where
  "spread c None = c"
| "spread c (Some d) =
     \<lparr>name = (case d_name d of Some v \<Rightarrow> v | None \<Rightarrow> name c),
      timestamp = (case d_timestamp d of Some v \<Rightarrow> v | None \<Rightarrow> timestamp c),
      elapsed = (case d_elapsed d of Some v \<Rightarrow> v | None \<Rightarrow> elapsed c),
      memory = override (memory c) (d_memory d),
      mode = override (mode c) (d_mode d),
      totalAttempts = override (totalAttempts c) (d_totalAttempts d),
      successfulMethod = override (successfulMethod c) (d_successfulMethod d),
      methods = override (methods c) (d_methods d),
      other = other c ++ d_other d\<rparr>"

text \<open>
  The readings: \<open>mem\<close> is \<^verbatim>\<open>process.memoryUsage()\<close>, \<open>now1\<close> the clock for
  \<^verbatim>\<open>timestamp\<close>, \<open>now2\<close> the clock for \<^verbatim>\<open>elapsed\<close>.
\<close>

definition recordCheckpoint ::
  "string \<Rightarrow> stage_name \<Rightarrow> StageDetails option \<Rightarrow> MemoryUsage \<Rightarrow> int \<Rightarrow> int \<Rightarrow> runtime \<Rightarrow> runtime" where
  "recordCheckpoint iid stageName details mem now1 now2 w =
     (case currentSession w iid of
        None \<Rightarrow> logToConsole (WarnNoSession iid) w
      | Some session \<Rightarrow>
          (let checkpoint =
             \<lparr>name = stage_key stageName, timestamp = now1,
              elapsed = now2 - startTime session,
              memory = Some \<lparr>heapUsed = roundMB (mu_heapUsed mem),
                             heapTotal = roundMB (mu_heapTotal mem),
                             external = roundMB (mu_external mem),
                             rss = roundMB (mu_rss mem)\<rparr>,
              mode = None, totalAttempts = None, successfulMethod = None,
              methods = None, other = Map.empty\<rparr>;
             session' = session\<lparr>stages := (stages session)(stageName \<mapsto> spread checkpoint details)\<rparr>
           in logToConsole
                (LogCheckpoint iid (stage_key stageName) (elapsed checkpoint)
                   (case memory checkpoint of
                      None \<Rightarrow> 0
                    | Some m \<Rightarrow> if heapUsed m = 0 then 0 else heapUsed m))
                (w\<lparr>currentSession := (currentSession w)(iid \<mapsto> session')\<rparr>)))"

text \<open>
  \<^verbatim>\<open>session.stages.canvasExtraction.methods.push(attempt)\<close> throws a \<^verbatim>\<open>TypeError\<close> when
  the stage object has no \<^verbatim>\<open>methods\<close>; nothing has been assigned before that point
  (the stage is created only when absent, and then with \<^verbatim>\<open>methods: []\<close>).
\<close>

definition recordMethodAttempt ::
  "string \<Rightarrow> string \<Rightarrow> int \<Rightarrow> int \<Rightarrow> runtime \<Rightarrow> js_error + runtime" where
  "recordMethodAttempt iid mname mnumber start w =
     (case currentSession w iid of
        None \<Rightarrow> Inr w
      | Some session \<Rightarrow>
          (let canvas =
             (case stages session CanvasExtraction of
                None \<Rightarrow>
                  \<lparr>name = ''canvasExtraction'', timestamp = start,
                   elapsed = start - startTime session, memory = None,
                   mode = Some ''unknown'', totalAttempts = Some (Fin 0),
                   successfulMethod = None, methods = Some [], other = Map.empty\<rparr>
              | Some c \<Rightarrow> c);
             attempt =
               \<lparr>methodName = mname, methodNumber = mnumber, attempt_startTime = start,
                attempt_endTime = None, duration = None, attempt_success = False,
                attempt_error = None, domState = None, extractionDetails = None\<rparr>
           in case methods canvas of
                None \<Rightarrow> Inl TypeError
              | Some ms \<Rightarrow>
                  (let canvas' = canvas\<lparr>methods := Some (ms @ [attempt]),
                                         totalAttempts := Some (increment (totalAttempts canvas))\<rparr>;
                       session' = session\<lparr>stages := (stages session)(CanvasExtraction \<mapsto> canvas')\<rparr>
                   in Inr (logToConsole (LogMethodStarting iid mnumber mname)
                             (w\<lparr>currentSession := (currentSession w)(iid \<mapsto> session')\<rparr>)))))"

text \<open>
  \<open>now\<close> is the clock read for \<^verbatim>\<open>method.endTime\<close>. As above,
  \<^verbatim>\<open>session.stages.canvasExtraction.methods.find\<close> throws when the stage object has no
  \<^verbatim>\<open>methods\<close>.
\<close>

definition recordMethodResult ::
  "string \<Rightarrow> int \<Rightarrow> bool \<Rightarrow> string option \<Rightarrow> DomState option \<Rightarrow> ExtractionDetails option
     \<Rightarrow> int \<Rightarrow> runtime \<Rightarrow> js_error + runtime" where
  "recordMethodResult iid mnumber succ err dstate details now w =
     (case currentSession w iid of
        None \<Rightarrow> Inr w
      | Some session \<Rightarrow>
          (case stages session CanvasExtraction of
             None \<Rightarrow> Inr w
           | Some canvas \<Rightarrow>
               (case methods canvas of
                  None \<Rightarrow> Inl TypeError
                | Some ms \<Rightarrow>
                    (case find (\<lambda>m. methodNumber m = mnumber) ms of
                       None \<Rightarrow> Inr w
                     | Some method \<Rightarrow>
                         (let method' =
                            method\<lparr>attempt_endTime := Some now,
                                   duration := Some (now - attempt_startTime method),
                                   attempt_success := succ,
                                   attempt_error := err,
                                   domState := dstate,
                                   extractionDetails := details\<rparr>;
                              canvas1 = canvas\<lparr>methods :=
                                Some (update_first (\<lambda>m. methodNumber m = mnumber) (\<lambda>_. method') ms)\<rparr>;
                              canvas2 = (if succ then canvas1\<lparr>successfulMethod := Some (methodName method')\<rparr>
                                         else canvas1);
                              session' = session\<lparr>stages := (stages session)(CanvasExtraction \<mapsto> canvas2)\<rparr>
                          in Inr (logToConsole
                                    (LogMethodResult iid mnumber (methodName method') succ
                                       (duration method') dstate err)
                                    (w\<lparr>currentSession := (currentSession w)(iid \<mapsto> session')\<rparr>)))))))"

text \<open>\<^verbatim>\<open>{ ...session.processState, ...state }\<close>.\<close>

definition spreadProcessState :: "ProcessState \<Rightarrow> ProcessState \<Rightarrow> ProcessState" where
  "spreadProcessState old state =
     \<lparr>browserRestarts = override (browserRestarts old) (browserRestarts state),
      memoryAtStart = override (memoryAtStart old) (memoryAtStart state),
      memoryAtEnd = override (memoryAtEnd old) (memoryAtEnd state),
      taskNumber = override (taskNumber old) (taskNumber state),
      queuePosition = override (queuePosition old) (queuePosition state),
      memoryMB = override (memoryMB old) (memoryMB state),
      recycleReason = override (recycleReason old) (recycleReason state),
      willRecycle = override (willRecycle old) (willRecycle state),
      browserRestart = override (browserRestart old) (browserRestart state),
      previousTasksCompleted =
        override (previousTasksCompleted old) (previousTasksCompleted state)\<rparr>"

definition recordProcessState :: "string \<Rightarrow> ProcessState \<Rightarrow> runtime \<Rightarrow> runtime" where
  "recordProcessState iid state w =
     (case currentSession w iid of
        None \<Rightarrow> w
      | Some session \<Rightarrow>
          w\<lparr>currentSession := (currentSession w)
               (iid \<mapsto> session\<lparr>processState := spreadProcessState (processState session) state\<rparr>)\<rparr>)"

definition recordOutcome ::
  "string \<Rightarrow> bool \<Rightarrow> string option \<Rightarrow> string option \<Rightarrow> bool option \<Rightarrow> string option
     \<Rightarrow> int \<Rightarrow> runtime \<Rightarrow> runtime" where
  "recordOutcome iid succ err stack skip reason now w =
     (case currentSession w iid of
        None \<Rightarrow> w
      | Some session \<Rightarrow>
          (let session' =
             session\<lparr>endTime := Some now,
                     totalDuration := Some (now - startTime session),
                     outcome := \<lparr>success = succ, error = err, errorStack = stack,
                                 skipped = skip, skipReason = reason, retryAttempt = None\<rparr>\<rparr>
           in logToConsole (LogSessionComplete iid succ skip (totalDuration session'))
                (w\<lparr>currentSession := (currentSession w)(iid \<mapsto> session')\<rparr>)))"

text \<open>
  \<^verbatim>\<open>writeFileSync(join(diagnosticsDir, file), content)\<close>: the entry of the sessions directory
  with the name of the task must be a directory.
\<close>

definition writeArtifact :: "string \<Rightarrow> string \<Rightarrow> artifact \<Rightarrow> runtime \<Rightarrow> js_error + runtime" where
  "writeArtifact iid file content w =
     (case map_of (sessionFiles w) iid of
        None \<Rightarrow> Inl ENOENT
      | Some Directory \<Rightarrow> Inr (w\<lparr>diagnosticFiles := (diagnosticFiles w)((iid, file) \<mapsto> content)\<rparr>)
      | Some _ \<Rightarrow> Inl ENOTDIR)"

text \<open>
  \<^verbatim>\<open>saveDiagnostics\<close> contains no \<^verbatim>\<open>await\<close>: its body runs to the end when it is called.
  A \<^verbatim>\<open>Buffer\<close> and an array are truthy whatever they hold; a string is truthy when it is
  not empty. \<^verbatim>\<open>mkdirSync\<close> adds the directory of the task to the sessions directory unless
  an entry of that name exists. The assignments to \<^verbatim>\<open>session.diagnostics\<close> made before a
  write throws stay in the live session; the error, if any, is the one with which the
  returned promise is rejected.
\<close>

definition saveDiagnostics ::
  "string \<Rightarrow> nat list option \<Rightarrow> string option \<Rightarrow> string list option \<Rightarrow> string list option
     \<Rightarrow> runtime \<Rightarrow> js_error option \<times> runtime" where
  "saveDiagnostics iid screenshotBuffer htmlSnapshot logs errors w =
     (case currentSession w iid of
        None \<Rightarrow> (None, w)
      | Some session \<Rightarrow>
          (let diagnosticsDir = join (sessionsDir w) iid;
               w0 = (if map_of (sessionFiles w) iid = None
                     then w\<lparr>sessionFiles := sessionFiles w @ [(iid, Directory)]\<rparr>
                     else w);
               d0 = (case diagnostics session of
                       None \<Rightarrow> \<lparr>screenshotPath = None, htmlSnapshotPath = None,
                                 consoleLogs = None, networkErrors = None\<rparr>
                     | Some d \<Rightarrow> d);
               assign = (\<lambda>d v. v\<lparr>currentSession := (currentSession v)
                                      (iid \<mapsto> session\<lparr>diagnostics := Some d\<rparr>)\<rparr>);
               step1 =
                 (case screenshotBuffer of
                    None \<Rightarrow> Inr (d0, w0)
                  | Some buffer \<Rightarrow>
                      (case writeArtifact iid ''failure-screenshot.png'' (Screenshot buffer) w0 of
                         Inl e \<Rightarrow> Inl (e, assign d0 w0)
                       | Inr w' \<Rightarrow>
                           (let path = join diagnosticsDir ''failure-screenshot.png''
                            in Inr (d0\<lparr>screenshotPath := Some path\<rparr>,
                                    logToConsole (LogScreenshotSaved iid path) w'))));
               step2 =
                 (case step1 of
                    Inl thrown \<Rightarrow> Inl thrown
                  | Inr (d1, w1) \<Rightarrow>
                      (case htmlSnapshot of
                         None \<Rightarrow> Inr (d1, w1)
                       | Some html \<Rightarrow>
                           if html = [] then Inr (d1, w1)
                           else (case writeArtifact iid ''failure-dom.html'' (HtmlSnapshot html) w1 of
                                   Inl e \<Rightarrow> Inl (e, assign d1 w1)
                                 | Inr w' \<Rightarrow>
                                     (let path = join diagnosticsDir ''failure-dom.html''
                                      in Inr (d1\<lparr>htmlSnapshotPath := Some path\<rparr>,
                                              logToConsole (LogHtmlSaved iid path) w')))))
           in case step2 of
                Inl (e, w') \<Rightarrow> (Some e, w')
              | Inr (d2, w2) \<Rightarrow>
                  (let d3 = (case logs of None \<Rightarrow> d2 | Some l \<Rightarrow> d2\<lparr>consoleLogs := Some l\<rparr>);
                       d4 = (case errors of None \<Rightarrow> d3 | Some e \<Rightarrow> d3\<lparr>networkErrors := Some e\<rparr>)
                   in (None, assign d4 w2))))"

text \<open>\<open>now\<close> is the clock read by \<^verbatim>\<open>new Date()\<close>.\<close>

definition appendToSummary :: "ImageDebugSession \<Rightarrow> int \<Rightarrow> runtime \<Rightarrow> runtime" where
  "appendToSummary session now w =
     (let summaryLine =
        \<lparr>sl_timestamp = now,
         sl_imageId = imageId session,
         sl_jobId = jobId session,
         sl_duration = totalDuration session,
         sl_success = success (outcome session),
         sl_skipped = skipped (outcome session),
         sl_error = error (outcome session),
         sl_successfulMethod =
           (case stages session CanvasExtraction of None \<Rightarrow> None | Some c \<Rightarrow> successfulMethod c),
         sl_totalMethodAttempts =
           (case stages session CanvasExtraction of None \<Rightarrow> None | Some c \<Rightarrow> totalAttempts c),
         sl_metadataSuccess =
           (case stages session MetadataExtraction of None \<Rightarrow> None | Some m \<Rightarrow> other m ''success''),
         sl_metadataTimedOut =
           (case stages session MetadataExtraction of None \<Rightarrow> None | Some m \<Rightarrow> other m ''timedOut''),
         sl_browserRestarts = browserRestarts (processState session),
         sl_memoryUsed =
           (case memoryAtEnd (processState session) of None \<Rightarrow> None | Some m \<Rightarrow> Some (hr_heapUsed m))\<rparr>
      in w\<lparr>summaryFile := Some ((case summaryFile w of None \<Rightarrow> [] | Some ls \<Rightarrow> ls) @ [summaryLine])\<rparr>)"

text \<open>
  The readings: \<open>now1\<close> for \<^verbatim>\<open>session.endTime\<close> (read only when the session has no end
  time yet), \<open>now2\<close> for the file name, \<open>now3\<close> for the summary line. \<^verbatim>\<open>writeFileSync\<close>
  throws when the file name is that of a directory; the end time assigned before
  stays in the live session. The file holds \<^verbatim>\<open>JSON.stringify(session)\<close>, the JSON text
  of the session.
\<close>

definition endImageSession ::
  "string \<Rightarrow> int \<Rightarrow> int \<Rightarrow> int \<Rightarrow> runtime \<Rightarrow> js_error option \<times> runtime" where
  "endImageSession iid now1 now2 now3 w =
     (case currentSession w iid of
        None \<Rightarrow> (None, w)
      | Some session \<Rightarrow>
          (let session' =
             (if \<not> truthy_number (endTime session)
              then session\<lparr>endTime := Some now1, totalDuration := Some (now1 - startTime session)\<rparr>
              else session);
             w0 = w\<lparr>currentSession := (currentSession w)(iid \<mapsto> session')\<rparr>
           in case numberText now2 of
                None \<Rightarrow> (Some OutsideModel, w0)
              | Some stamp \<Rightarrow>
                  (let fileName = iid @ ''_'' @ stamp @ ''.json''
                   in if map_of (sessionFiles w0) fileName = Some Directory then (Some EISDIR, w0)
                      else (let w1 = w0\<lparr>sessionFiles :=
                                        AList.update fileName (SessionJson session') (sessionFiles w0)\<rparr>;
                                w2 = logToConsole (LogSessionSaved (join (sessionsDir w) fileName)) w1;
                                w3 = appendToSummary session' now3 w2
                            in (None, w3\<lparr>currentSession := (currentSession w3)(iid := None)\<rparr>)))))"

subsection \<open>The statistics over the persisted sessions\<close>

record MethodStats =
  attempts :: int
  successes :: int
  failures :: int
  avgDuration :: rat
  stats_totalDuration :: int

datatype statistics =
    NoSummaryData                                   \<comment> \<open>\<^verbatim>\<open>{ message: "No summary data available yet" }\<close>\<close>
  | Statistics nat "string \<rightharpoonup> MethodStats"         \<comment> \<open>\<^verbatim>\<open>{ totalSessions, methodStatistics }\<close>\<close>

text \<open>
  The record \<^verbatim>\<open>methodStats\<close> starts as \<^verbatim>\<open>{}\<close> and so inherits the properties of
  \<^verbatim>\<open>Object.prototype\<close>: these are their names.
\<close>

definition inheritedNames :: "string list" where
  "inheritedNames =
     [''constructor'', ''__defineGetter__'', ''__defineSetter__'', ''hasOwnProperty'',
      ''__lookupGetter__'', ''__lookupSetter__'', ''isPrototypeOf'', ''propertyIsEnumerable'',
      ''toString'', ''valueOf'', ''__proto__'', ''toLocaleString'']"

text \<open>
  The body of the inner loop, for one method of one persisted session, on the own
  properties of \<^verbatim>\<open>methodStats\<close> and the names written onto \<^verbatim>\<open>Object.prototype\<close> so far.
  For an inherited name \<^verbatim>\<open>methodStats[method.methodName]\<close> is an object, hence truthy:
  no own entry is created, and the counters are written onto the inherited object,
  where each becomes \<^verbatim>\<open>NaN\<close>. For \<^verbatim>\<open>__proto__\<close> that object is \<^verbatim>\<open>Object.prototype\<close> itself;
  for the other names it is a function that nothing here reads. A name written onto
  \<^verbatim>\<open>Object.prototype\<close> holds \<^verbatim>\<open>NaN\<close>, which is falsy, so an own entry is created for it
  as for any other name.
\<close>

definition countMethod ::
  "(string \<rightharpoonup> MethodStats) \<times> string list \<Rightarrow> MethodAttempt
     \<Rightarrow> (string \<rightharpoonup> MethodStats) \<times> string list" where
  "countMethod state method =
     (let methodStats = fst state; written = snd state
      in if methodName method = ''__proto__''
         then (methodStats,
               (let w1 = List.insert ''attempts'' written;
                    w2 = (if attempt_success method then List.insert ''successes'' w1
                          else List.insert ''failures'' w1)
                in if truthy_number (duration method) then List.insert ''totalDuration'' w2
                   else w2))
         else if methodName method \<in> set inheritedNames then (methodStats, written)
         else (let e0 = (case methodStats (methodName method) of
                           None \<Rightarrow> \<lparr>attempts = 0, successes = 0, failures = 0, avgDuration = 0,
                                     stats_totalDuration = 0\<rparr>
                         | Some e \<Rightarrow> e);
                   e1 = e0\<lparr>attempts := attempts e0 + 1\<rparr>;
                   e2 = (if attempt_success method then e1\<lparr>successes := successes e1 + 1\<rparr>
                         else e1\<lparr>failures := failures e1 + 1\<rparr>);
                   e3 = (case duration method of
                           None \<Rightarrow> e2
                         | Some d \<Rightarrow>
                             if d = 0 then e2
                             else e2\<lparr>stats_totalDuration := stats_totalDuration e2 + d\<rparr>)
               in (methodStats(methodName method \<mapsto> e3), written)))"

text \<open>
  \<^verbatim>\<open>JSON.parse(readFileSync(...))\<close> typed as a session, up to the first property access
  \<^verbatim>\<open>session.stages.canvasExtraction\<close>: reading a directory, parsing a text that is no
  JSON and dereferencing the missing \<^verbatim>\<open>stages\<close> throw.
\<close>

fun readSession :: "dir_entry \<Rightarrow> js_error + ImageDebugSession" where
  "readSession Directory = Inl EISDIR"
| "readSession Unparseable = Inl SyntaxError"
| "readSession (OtherJson j) = Inl TypeError"
| "readSession (SessionJson session) = Inr session"

text \<open>
  The loop over \<^verbatim>\<open>readdirSync(this.sessionsDir)\<close>. Nothing in it is guarded, so an error
  leaves the loop and the method; what has been written onto \<^verbatim>\<open>Object.prototype\<close> until
  then stays.
\<close>

fun scanSessionFiles ::
  "(string \<times> dir_entry) list \<Rightarrow> (string \<rightharpoonup> MethodStats) \<times> string list
     \<Rightarrow> (js_error + (string \<rightharpoonup> MethodStats)) \<times> string list" where
  "scanSessionFiles [] state = (Inr (fst state), snd state)"
| "scanSessionFiles ((sessionFile, entry) # rest) state =
     (if \<not> endsWith sessionFile ''.json'' then scanSessionFiles rest state
      else (case readSession entry of
              Inl e \<Rightarrow> (Inl e, snd state)
            | Inr session \<Rightarrow>
                scanSessionFiles rest
                  (case stages session CanvasExtraction of
                     None \<Rightarrow> state
                   | Some canvas \<Rightarrow>
                       (case methods canvas of
                          None \<Rightarrow> state
                        | Some ms \<Rightarrow> foldl countMethod state ms))))"

text \<open>The assignment \<^verbatim>\<open>stats.avgDuration = stats.totalDuration / stats.attempts\<close>.\<close>

definition setAverages :: "(string \<rightharpoonup> MethodStats) \<Rightarrow> (string \<rightharpoonup> MethodStats)" where
  "setAverages methodStats =
     (\<lambda>methodName.
        map_option
          (\<lambda>stats. stats\<lparr>avgDuration := of_int (stats_totalDuration stats) / of_int (attempts stats)\<rparr>)
          (methodStats methodName))"

text \<open>
  The final loop \<^verbatim>\<open>for (const methodName in methodStats)\<close>. It visits the own properties
  and then the enumerable properties of \<^verbatim>\<open>Object.prototype\<close> that no own property
  shadows. For such a name \<^verbatim>\<open>stats\<close> is the number \<^verbatim>\<open>NaN\<close>, and the assignment to a
  property of a number throws in strict mode code.
\<close>

definition averageAll ::
  "(string \<rightharpoonup> MethodStats) \<Rightarrow> string list \<Rightarrow> js_error + (string \<rightharpoonup> MethodStats)" where
  "averageAll methodStats written =
     (if list_ex (\<lambda>key. methodStats key = None) written then Inl TypeError
      else Inr (setAverages methodStats))"

text \<open>
  The call returns its value or throws, and leaves the names written onto
  \<^verbatim>\<open>Object.prototype\<close> behind in either case.
\<close>

definition getMethodStatistics :: "runtime \<Rightarrow> (js_error + statistics) \<times> runtime" where
  "getMethodStatistics w =
     (case summaryFile w of
        None \<Rightarrow> (Inr NoSummaryData, w)
      | Some lines \<Rightarrow>
          (let (scanned, written) = scanSessionFiles (sessionFiles w) (Map.empty, prototypeKeys w);
               w' = w\<lparr>prototypeKeys := written\<rparr>
           in case scanned of
                Inl e \<Rightarrow> (Inl e, w')
              | Inr methodStats \<Rightarrow>
                  (case averageAll methodStats written of
                     Inl e \<Rightarrow> (Inl e, w')
                   | Inr averaged \<Rightarrow> (Inr (Statistics (length lines) averaged), w'))))"

subsection \<open>Memory monitor and process recycling manager\<close>

record MemoryMonitor =
  initialMemory :: int
  monitor_startTime :: int

record ProcessRecyclingManager =
  tasksCompleted :: int
  maxTasksPerCycle :: int
  memoryMonitor :: MemoryMonitor
  memoryThresholdMB :: int

text \<open>\<open>mem\<close> is the reading of \<^verbatim>\<open>process.memoryUsage()\<close> after the optional collection.\<close>

definition MemoryMonitor_start :: "MemoryUsage \<Rightarrow> int \<Rightarrow> runtime \<Rightarrow> MemoryMonitor \<times> runtime" where
  "MemoryMonitor_start mem now w =
     (\<lparr>initialMemory = mu_heapUsed mem, monitor_startTime = now\<rparr>,
      logToConsole (LogInitialHeap (mu_heapUsed mem)) w)"

text \<open>The parameter \<^verbatim>\<open>maxMemoryMB: number = 300\<close>: an absent argument is 300.\<close>

definition MemoryMonitor_shouldRecycle :: "int option \<Rightarrow> MemoryUsage \<Rightarrow> runtime \<Rightarrow> bool \<times> runtime" where
  "MemoryMonitor_shouldRecycle maxMemoryMB mem w =
     (let limit = (case maxMemoryMB of None \<Rightarrow> 300 | Some v \<Rightarrow> v);
          heapUsedMB = toMB (mu_heapUsed mem)
      in if heapUsedMB > of_int limit
         then (True, logToConsole (WarnMemoryThreshold heapUsedMB limit) w)
         else (False, w))"


definition recordTaskComplete :: "ProcessRecyclingManager \<Rightarrow> ProcessRecyclingManager" where
  "recordTaskComplete m = m\<lparr>tasksCompleted := tasksCompleted m + 1\<rparr>"

text \<open>
  \<open>mem1\<close> is the reading the manager takes for its log lines, \<open>mem2\<close> the reading the
  monitor takes inside \<^verbatim>\<open>this.memoryMonitor.shouldRecycle\<close>, on which the decision rests.
\<close>

definition shouldRecycle ::
  "string option \<Rightarrow> MemoryUsage \<Rightarrow> MemoryUsage \<Rightarrow> ProcessRecyclingManager \<Rightarrow> runtime \<Rightarrow> bool \<times> runtime" where
  "shouldRecycle iid mem1 mem2 m w =
     (let taskCountExceeded = (tasksCompleted m \<ge> maxTasksPerCycle m);
          heapUsedMB = toMB (mu_heapUsed mem1);
          heapTotalMB = toMB (mu_heapTotal mem1);
          rssMB = toMB (mu_rss mem1);
          (memoryExceeded, w1) = MemoryMonitor_shouldRecycle (Some (memoryThresholdMB m)) mem2 w;
          recycleDecision = (taskCountExceeded \<or> memoryExceeded);
          reason = (if taskCountExceeded then TaskLimit (tasksCompleted m) (maxTasksPerCycle m)
                    else if memoryExceeded then MemoryThreshold heapUsedMB (memoryThresholdMB m)
                    else NoReason);
          w2 = (if taskCountExceeded
                then logToConsole (LogTaskLimit (tasksCompleted m) (maxTasksPerCycle m)) w1
                else w1);
          w3 = (if recycleDecision
                then (let w' = logToConsole (LogMemoryStats heapUsedMB heapTotalMB rssMB)
                                 (logToConsole (LogRecyclingNeeded reason) w2)
                      in case iid of
                           None \<Rightarrow> w'
                         | Some i \<Rightarrow>
                             if i = [] then w'
                             else recordProcessState i
                                    \<lparr>browserRestarts = None, memoryAtStart = None,
                                     memoryAtEnd = None,
                                     taskNumber = Some (tasksCompleted m), queuePosition = None,
                                     memoryMB = Some heapUsedMB, recycleReason = Some reason,
                                     willRecycle = Some True, browserRestart = None,
                                     previousTasksCompleted = None\<rparr> w')
                else w2)
      in (recycleDecision, w3))"

text \<open>
  \<open>mem\<close> and \<open>now\<close> are the readings of the monitor's restart, \<open>mem'\<close> the reading
  for the recorded \<^verbatim>\<open>memoryMB\<close>.
\<close>

definition reset ::
  "string option \<Rightarrow> MemoryUsage \<Rightarrow> int \<Rightarrow> MemoryUsage \<Rightarrow> ProcessRecyclingManager \<Rightarrow> runtime
     \<Rightarrow> ProcessRecyclingManager \<times> runtime" where
  "reset iid mem now mem' m w =
     (let prevTasks = tasksCompleted m;
          (monitor, w1) = MemoryMonitor_start mem now w;
          m' = m\<lparr>tasksCompleted := 0, memoryMonitor := monitor\<rparr>;
          w2 = logToConsole LogCycleReset w1;
          w3 = (case iid of
                  None \<Rightarrow> w2
                | Some i \<Rightarrow>
                    if i = [] then w2
                    else recordProcessState i
                           \<lparr>browserRestarts = None, memoryAtStart = None, memoryAtEnd = None,
                            taskNumber = Some 0, queuePosition = None,
                            memoryMB = Some (toMB (mu_heapUsed mem')), recycleReason = None,
                            willRecycle = None, browserRestart = Some True,
                            previousTasksCompleted = Some prevTasks\<rparr> w2)
      in (m', w3))"

definition getTasksCompleted :: "ProcessRecyclingManager \<Rightarrow> int" where
  "getTasksCompleted m = tasksCompleted m"

subsection \<open>Sequences of calls\<close>

text \<open>
  A caller's sequence of \<^verbatim>\<open>recordMethodAttempt\<close> calls for one task, each call given as
  (method name, method number, start time). A thrown error ends the sequence.
\<close>

fun recordMethodAttempts :: "string \<Rightarrow> (string \<times> int \<times> int) list \<Rightarrow> runtime \<Rightarrow> js_error + runtime" where
  "recordMethodAttempts iid [] w = Inr w"
| "recordMethodAttempts iid ((mname, mnumber, start) # calls) w =
     (case recordMethodAttempt iid mname mnumber start w of
        Inl e \<Rightarrow> Inl e
      | Inr w' \<Rightarrow> recordMethodAttempts iid calls w')"

text \<open>The arguments of one \<^verbatim>\<open>recordMethodResult\<close> call and its clock reading.\<close>

record ResultCall =
  r_methodNumber :: int
  r_success :: bool
  r_error :: "string option"
  r_domState :: "DomState option"
  r_extractionDetails :: "ExtractionDetails option"
  r_now :: int

fun recordMethodResults :: "string \<Rightarrow> ResultCall list \<Rightarrow> runtime \<Rightarrow> js_error + runtime" where
  "recordMethodResults iid [] w = Inr w"
| "recordMethodResults iid (r # calls) w =
     (case recordMethodResult iid (r_methodNumber r) (r_success r) (r_error r) (r_domState r)
             (r_extractionDetails r) (r_now r) w of
        Inl e \<Rightarrow> Inl e
      | Inr w' \<Rightarrow> recordMethodResults iid calls w')"

text \<open>
  The calls that begin the attempts of a fallback chain with the ranks \<open>1..N\<close>: the
  \<open>i\<close>-th method of the chain (name and start time) gets the method number \<open>i\<close>.
\<close>

definition rankedAttempts :: "(string \<times> int) list \<Rightarrow> (string \<times> int \<times> int) list" where
  "rankedAttempts chain =
     map (\<lambda>i. (fst (chain ! i), int i + 1, snd (chain ! i))) [0..<length chain]"

text \<open>The canvas-extraction stage of a task's live session, if both exist.\<close>

definition canvasStage :: "runtime \<Rightarrow> string \<Rightarrow> Stage option" where
  "canvasStage w iid =
     (case currentSession w iid of None \<Rightarrow> None | Some session \<Rightarrow> stages session CanvasExtraction)"

text \<open>
  What the canvas-extraction stage of a task holds after a sequence of calls: the stored
  method numbers in list order, the stored (method number, method name, success flag)
  triples, and \<^verbatim>\<open>successfulMethod\<close>. Each is \<open>None\<close> when the sequence threw, or
  when there is no session, no stage or no \<^verbatim>\<open>methods\<close> list.
\<close>

definition storedMethodNumbers :: "js_error + runtime \<Rightarrow> string \<Rightarrow> int list option" where
  "storedMethodNumbers result iid =
     (case result of
        Inl e \<Rightarrow> None
      | Inr w \<Rightarrow>
          (case canvasStage w iid of
             None \<Rightarrow> None
           | Some c \<Rightarrow> (case methods c of None \<Rightarrow> None | Some ms \<Rightarrow> Some (map methodNumber ms))))"

definition storedSuccessfulMethod :: "js_error + runtime \<Rightarrow> string \<Rightarrow> string option" where
  "storedSuccessfulMethod result iid =
     (case result of
        Inl e \<Rightarrow> None
      | Inr w \<Rightarrow> (case canvasStage w iid of None \<Rightarrow> None | Some c \<Rightarrow> successfulMethod c))"

definition storedOutcomes :: "js_error + runtime \<Rightarrow> string \<Rightarrow> (int \<times> string \<times> bool) list option" where
  "storedOutcomes result iid =
     (case result of
        Inl e \<Rightarrow> None
      | Inr w \<Rightarrow>
          (case canvasStage w iid of
             None \<Rightarrow> None
           | Some c \<Rightarrow>
               (case methods c of
                  None \<Rightarrow> None
                | Some ms \<Rightarrow> Some (map (\<lambda>m. (methodNumber m, methodName m, attempt_success m)) ms))))"

text \<open>
  The method attempts that the persisted session records hold, in the order in which
  \<^verbatim>\<open>getMethodStatistics\<close> visits them; the statistics are stated against this list.
\<close>

fun persistedAttempts :: "(string \<times> dir_entry) list \<Rightarrow> MethodAttempt list" where
  "persistedAttempts [] = []"
| "persistedAttempts ((sessionFile, entry) # rest) =
     (if endsWith sessionFile ''.json''
      then (case entry of
              SessionJson session \<Rightarrow>
                (case stages session CanvasExtraction of
                   None \<Rightarrow> []
                 | Some canvas \<Rightarrow> (case methods canvas of None \<Rightarrow> [] | Some ms \<Rightarrow> ms))
            | _ \<Rightarrow> [])
      else []) @ persistedAttempts rest"

text \<open>Whether every \<^verbatim>\<open>.json\<close> entry of a directory listing is the record of a session.\<close>

fun sessionRecordsOnly :: "(string \<times> dir_entry) list \<Rightarrow> bool" where
  "sessionRecordsOnly [] = True"
| "sessionRecordsOnly ((sessionFile, entry) # rest) =
     ((if endsWith sessionFile ''.json''
       then (case entry of SessionJson session \<Rightarrow> True | _ \<Rightarrow> False)
       else True) \<and> sessionRecordsOnly rest)"

text \<open>The duration that the statistics add for one attempt.\<close>

fun durationOf :: "MethodAttempt \<Rightarrow> int" where
  "durationOf m = (case duration m of None \<Rightarrow> 0 | Some d \<Rightarrow> d)"

text \<open>
  What the specification asks for one method name, given the persisted attempts with
  that name: the number of attempts, of successes and of failures, the sum of the
  durations and their average. It is stated for a name with at least one attempt; a
  name without attempts has no entry.
\<close>

definition expectedStats :: "MethodAttempt list \<Rightarrow> MethodStats option" where
  "expectedStats as =
     (if as = [] then None
      else Some \<lparr>attempts = int (length as),
                 successes = int (length (filter attempt_success as)),
                 failures = int (length (filter (\<lambda>m. \<not> attempt_success m) as)),
                 avgDuration = of_int (sum_list (map durationOf as)) / of_int (int (length as)),
                 stats_totalDuration = sum_list (map durationOf as)\<rparr>)"

subsection \<open>Concrete inputs\<close>

text \<open>A logger that has just been constructed over an empty sessions directory.\<close>

definition emptyRuntime :: runtime where
  "emptyRuntime =
     \<lparr>sessionsDir = ''logs/debug-sessions'', currentSession = Map.empty, console = [],
      sessionFiles = [], summaryFile = None, diagnosticFiles = Map.empty,
      prototypeKeys = []\<rparr>"

text \<open>A memory reading with 100 MB of heap in use.\<close>

definition sampleMemory :: MemoryUsage where
  "sampleMemory =
     \<lparr>mu_rss = 200 * 1024 * 1024, mu_heapTotal = 150 * 1024 * 1024,
      mu_heapUsed = 100 * 1024 * 1024, mu_external = 1024 * 1024\<rparr>"


text \<open>A recycling manager with a budget of three tasks that has used all of it.\<close>

definition usedManager :: ProcessRecyclingManager where
  "usedManager =
     \<lparr>tasksCompleted = 3, maxTasksPerCycle = 3,
      memoryMonitor = \<lparr>initialMemory = 0, monitor_startTime = 0\<rparr>,
      memoryThresholdMB = 300\<rparr>"

text \<open>
  One task of the pipeline with a single extraction method \<^verbatim>\<open>viewport-render\<close>: the
  session starts at \<open>t\<close>, the method starts at \<open>t\<close> and its result is recorded \<open>d\<close>
  milliseconds later, then the outcome is recorded and the session ended. An error
  thrown on the way ends the task.
\<close>

definition runTask :: "string \<Rightarrow> bool \<Rightarrow> int \<Rightarrow> int \<Rightarrow> runtime \<Rightarrow> js_error + runtime" where
  "runTask iid succ t d w =
     (case recordMethodAttempt iid ''viewport-render'' 1 t (startImageSession iid ''job-1'' ''https://example.org'' t w) of
        Inl e \<Rightarrow> Inl e
      | Inr w1 \<Rightarrow>
          (case recordMethodResult iid 1 succ None None None (t + d) w1 of
             Inl e \<Rightarrow> Inl e
           | Inr w2 \<Rightarrow>
               (case endImageSession iid (t + d) (t + d) (t + d)
                       (recordOutcome iid succ None None None None (t + d) w2) of
                  (Some e, w3) \<Rightarrow> Inl e
                | (None, w3) \<Rightarrow> Inr w3)))"

text \<open>
  Three persisted sessions: \<^verbatim>\<open>viewport-render\<close> succeeds after 100 ms and after 200 ms
  and fails after 50 ms.
\<close>

definition threeSessions :: "js_error + runtime" where
  "threeSessions =
     (case runTask ''img-1'' True 1000 100 emptyRuntime of
        Inl e \<Rightarrow> Inl e
      | Inr w1 \<Rightarrow>
          (case runTask ''img-2'' True 2000 200 w1 of
             Inl e \<Rightarrow> Inl e
           | Inr w2 \<Rightarrow> runTask ''img-3'' False 3000 50 w2))"

text \<open>A partial update of the process state that carries no property.\<close>

definition emptyProcessState :: ProcessState where
  "emptyProcessState =
     \<lparr>browserRestarts = None, memoryAtStart = None, memoryAtEnd = None, taskNumber = None,
      queuePosition = None, memoryMB = None, recycleReason = None, willRecycle = None,
      browserRestart = None, previousTasksCompleted = None\<rparr>"

text \<open>A session that has just been started.\<close>

definition startedSession :: runtime where
  "startedSession = startImageSession ''img-1'' ''job-1'' ''https://example.org'' 1000 emptyRuntime"

text \<open>
  A session with one completed checkpoint, and the state after \<^verbatim>\<open>startImageSession\<close> is
  called a second time for the same task.
\<close>

definition startedOnce :: runtime where
  "startedOnce =
     recordCheckpoint ''img-1'' Navigation None sampleMemory 1500 1500 startedSession"

definition startedTwice :: runtime where
  "startedTwice = startImageSession ''img-1'' ''job-1'' ''https://example.org'' 2000 startedOnce"

text \<open>
  A session whose canvas-extraction stage was written by \<^verbatim>\<open>recordCheckpoint\<close> without
  details.
\<close>

definition checkpointedCanvas :: runtime where
  "checkpointedCanvas =
     recordCheckpoint ''img-1'' CanvasExtraction None sampleMemory 1200 1200 startedSession"

text \<open>A session in which two methods of the fallback chain have been begun.\<close>

definition attemptedTwice :: "js_error + runtime" where
  "attemptedTwice =
     recordMethodAttempts ''img-1''
       (rankedAttempts [(''viewport-render'', 1100), (''canvas-toDataURL'', 1200)])
       startedSession"

text \<open>
  A persisted session record, a sessions directory that holds it together with its
  summary line, and the same directory with a second record that was cut off while
  it was written.
\<close>

definition goodRecord :: ImageDebugSession where
  "goodRecord =
     \<lparr>imageId = ''img-1'', jobId = ''job-1'', url = ''https://example.org'',
      startTime = 1000, endTime = Some 1100, totalDuration = Some 100,
      stages = [CanvasExtraction \<mapsto>
        \<lparr>name = ''canvasExtraction'', timestamp = 1000, elapsed = 0, memory = None,
         mode = Some ''unknown'', totalAttempts = Some (Fin 1),
         successfulMethod = Some ''viewport-render'',
         methods = Some [\<lparr>methodName = ''viewport-render'', methodNumber = 1,
                          attempt_startTime = 1000, attempt_endTime = Some 1100,
                          duration = Some 100, attempt_success = True, attempt_error = None,
                          domState = None, extractionDetails = None\<rparr>],
         other = Map.empty\<rparr>],
      processState = emptyProcessState\<lparr>browserRestarts := Some 0\<rparr>,
      outcome = \<lparr>success = True, error = None, errorStack = None, skipped = None,
                 skipReason = None, retryAttempt = None\<rparr>,
      diagnostics = None\<rparr>"

definition goodDirectory :: runtime where
  "goodDirectory =
     (appendToSummary goodRecord 1100 emptyRuntime)
       \<lparr>sessionFiles := [(''img-1_1100.json'', SessionJson goodRecord)]\<rparr>"

definition corruptDirectory :: runtime where
  "corruptDirectory =
     goodDirectory\<lparr>sessionFiles := sessionFiles goodDirectory @ [(''img-2_2200.json'', Unparseable)]\<rparr>"

text \<open>
  The directory with a second record that holds the JSON text \<^verbatim>\<open>{}\<close> instead; and the
  directory with the session record but without a summary log.
\<close>

definition foreignDirectory :: runtime where
  "foreignDirectory =
     goodDirectory\<lparr>sessionFiles := sessionFiles goodDirectory
                     @ [(''img-3_3300.json'', OtherJson JsonObjectWithoutStages)]\<rparr>"

definition orphanedRecord :: runtime where
  "orphanedRecord = emptyRuntime\<lparr>sessionFiles := [(''img-1_1100.json'', SessionJson goodRecord)]\<rparr>"

text \<open>
  A persisted session whose one extraction method has the name \<^verbatim>\<open>constructor\<close>, in a
  directory with its summary line.
\<close>

definition constructorRecord :: ImageDebugSession where
  "constructorRecord =
     goodRecord\<lparr>stages := [CanvasExtraction \<mapsto>
        \<lparr>name = ''canvasExtraction'', timestamp = 1000, elapsed = 0, memory = None,
         mode = Some ''unknown'', totalAttempts = Some (Fin 1),
         successfulMethod = Some ''constructor'',
         methods = Some [\<lparr>methodName = ''constructor'', methodNumber = 1,
                          attempt_startTime = 1000, attempt_endTime = Some 1100,
                          duration = Some 100, attempt_success = True, attempt_error = None,
                          domState = None, extractionDetails = None\<rparr>],
         other = Map.empty\<rparr>]\<rparr>"

definition constructorDirectory :: runtime where
  "constructorDirectory =
     (appendToSummary constructorRecord 1100 emptyRuntime)
       \<lparr>sessionFiles := [(''img-1_1100.json'', SessionJson constructorRecord)]\<rparr>"

text \<open>
  Result calls: a success, and a failure with an error text, for a method number at a
  clock reading.
\<close>

definition successAt :: "int \<Rightarrow> int \<Rightarrow> ResultCall" where
  "successAt mnumber now =
     \<lparr>r_methodNumber = mnumber, r_success = True, r_error = None, r_domState = None,
      r_extractionDetails = None, r_now = now\<rparr>"

definition failureAt :: "int \<Rightarrow> int \<Rightarrow> ResultCall" where
  "failureAt mnumber now =
     \<lparr>r_methodNumber = mnumber, r_success = False, r_error = Some ''timeout'', r_domState = None,
      r_extractionDetails = None, r_now = now\<rparr>"

text \<open>
  Two methods begun with the ranks 1 and 2, then both recorded as successful, rank 1
  first.
\<close>

definition twoSuccesses :: "js_error + runtime" where
  "twoSuccesses =
     (case attemptedTwice of
        Inl e \<Rightarrow> Inl e
      | Inr w \<Rightarrow> recordMethodResults ''img-1'' [successAt 1 1250, successAt 2 1300] w)"

text \<open>Three methods begun with the method numbers 2, 1 and 1.\<close>

definition unorderedRanks :: "js_error + runtime" where
  "unorderedRanks =
     recordMethodAttempts ''img-1''
       [(''viewport-render'', 2, 1100), (''canvas-toDataURL'', 1, 1200), (''tile-stitch'', 1, 1300)]
       startedSession"

subsection \<open>Auxiliary definitions of the proofs\<close>

text \<open>
  The entry of a method name before its first attempt is counted, and the entry after
  the inner loop of \<^verbatim>\<open>getMethodStatistics\<close> has counted the attempts \<open>xs\<close> on top of \<open>e\<close>.
\<close>

definition zeroStats :: MethodStats where
  "zeroStats = \<lparr>attempts = 0, successes = 0, failures = 0, avgDuration = 0, stats_totalDuration = 0\<rparr>"

definition bump :: "MethodStats \<Rightarrow> MethodAttempt list \<Rightarrow> MethodStats" where
  "bump e xs =
     e\<lparr>attempts := attempts e + int (length xs),
       successes := successes e + int (length (filter attempt_success xs)),
       failures := failures e + int (length (filter (\<lambda>m. \<not> attempt_success m) xs)),
       stats_totalDuration := stats_totalDuration e + sum_list (map durationOf xs)\<rparr>"

text \<open>
  The attempt that \<^verbatim>\<open>recordMethodAttempt\<close> appends for a call; the statement that the
  canvas-extraction stage of a task holds a given \<^verbatim>\<open>methods\<close> list and a given
  \<^verbatim>\<open>successfulMethod\<close>; the (method number, method name) pairs of a \<^verbatim>\<open>methods\<close> list;
  and the effect of one \<^verbatim>\<open>recordMethodResult\<close> call on \<^verbatim>\<open>successfulMethod\<close>, given those
  pairs.
\<close>

definition freshAttempt :: "string \<times> int \<times> int \<Rightarrow> MethodAttempt" where
  "freshAttempt call =
     \<lparr>methodName = fst call, methodNumber = fst (snd call), attempt_startTime = snd (snd call),
      attempt_endTime = None, duration = None, attempt_success = False,
      attempt_error = None, domState = None, extractionDetails = None\<rparr>"

definition canvasHolds :: "runtime \<Rightarrow> string \<Rightarrow> MethodAttempt list \<Rightarrow> string option \<Rightarrow> bool" where
  "canvasHolds w iid ms sm =
     (\<exists>c. canvasStage w iid = Some c \<and> methods c = Some ms \<and> successfulMethod c = sm)"

definition methodKeys :: "MethodAttempt list \<Rightarrow> (int \<times> string) list" where
  "methodKeys ms = map (\<lambda>m. (methodNumber m, methodName m)) ms"

definition resultStep :: "(int \<times> string) list \<Rightarrow> string option \<Rightarrow> ResultCall \<Rightarrow> string option" where
  "resultStep K sm r =
     (if r_success r \<and> r_methodNumber r \<in> fst ` set K then map_of K (r_methodNumber r) else sm)"

section \<open>Properties of the process recycling manager\<close>

lemma fst_shouldRecycle:
  "fst (shouldRecycle iid mem1 mem2 m w) =
     (maxTasksPerCycle m \<le> tasksCompleted m \<or> of_int (memoryThresholdMB m) < toMB (mu_heapUsed mem2))"
  by (simp add: shouldRecycle_def MemoryMonitor_shouldRecycle_def Let_def split: prod.splits)


lemma recordTaskComplete_funpow:
  "tasksCompleted ((recordTaskComplete ^^ k) m) = tasksCompleted m + int k"
  "maxTasksPerCycle ((recordTaskComplete ^^ k) m) = maxTasksPerCycle m"
  "memoryThresholdMB ((recordTaskComplete ^^ k) m) = memoryThresholdMB m"
  by (induction k) (simp_all add: recordTaskComplete_def)

lemma reset_fields:
  "tasksCompleted (fst (reset iid mem now mem' m w)) = 0"
  "maxTasksPerCycle (fst (reset iid mem now mem' m w)) = maxTasksPerCycle m"
  "memoryThresholdMB (fst (reset iid mem now mem' m w)) = memoryThresholdMB m"
  by (simp_all add: reset_def MemoryMonitor_start_def Let_def split: prod.splits)




text \<open>
  Claim C6. After \<^verbatim>\<open>reset\<close>, \<^verbatim>\<open>getTasksCompleted\<close> returns 0; and with a memory reading
  that does not exceed the threshold, \<^verbatim>\<open>shouldRecycle\<close> after \<open>k\<close> further calls of
  \<^verbatim>\<open>recordTaskComplete\<close> returns true exactly when \<open>k\<close> has reached
  \<^verbatim>\<open>maxTasksPerCycle\<close>: false for every smaller number of calls.
\<close>

theorem reset_then_count:
  "getTasksCompleted (fst (reset iid mem now mem' m w)) = 0
   \<and> (toMB (mu_heapUsed mem2) \<le> of_int (memoryThresholdMB m) \<longrightarrow>
        fst (shouldRecycle iid' mem1 mem2 ((recordTaskComplete ^^ k) (fst (reset iid mem now mem' m w))) w')
          = (maxTasksPerCycle m \<le> int k))"
  by (simp add: getTasksCompleted_def fst_shouldRecycle recordTaskComplete_funpow reset_fields)

theorem reset_then_count_witness:
  "toMB (mu_heapUsed sampleMemory) \<le> of_int (memoryThresholdMB usedManager)
   \<and> getTasksCompleted (fst (reset None sampleMemory 0 sampleMemory usedManager emptyRuntime)) = 0
   \<and> \<not> fst (shouldRecycle None sampleMemory sampleMemory
         ((recordTaskComplete ^^ 2) (fst (reset None sampleMemory 0 sampleMemory usedManager emptyRuntime))) emptyRuntime)
   \<and> fst (shouldRecycle None sampleMemory sampleMemory
         ((recordTaskComplete ^^ 3) (fst (reset None sampleMemory 0 sampleMemory usedManager emptyRuntime))) emptyRuntime)"
proof -
  have below: "toMB (mu_heapUsed sampleMemory) \<le> of_int (memoryThresholdMB usedManager)"
    by (simp add: toMB_def sampleMemory_def usedManager_def)
  have max: "maxTasksPerCycle usedManager = 3"
    by (simp add: usedManager_def)
  from below max
    reset_then_count [of None sampleMemory 0 sampleMemory usedManager emptyRuntime sampleMemory None sampleMemory 2 emptyRuntime]
    reset_then_count [of None sampleMemory 0 sampleMemory usedManager emptyRuntime sampleMemory None sampleMemory 3 emptyRuntime]
  show ?thesis by simp
qed


section \<open>Properties of the session tracker\<close>

lemma override_None: "override None d = d"
  by (cases d) simp_all

text \<open>
  Claim C3 does not hold: \<^verbatim>\<open>startImageSession\<close> has no guard for an existing session.
  After a second start for the same task the live session differs from the one that
  was there.
\<close>

theorem restart_counterexample:
  "currentSession startedOnce ''img-1'' \<noteq> None
   \<and> currentSession startedTwice ''img-1'' \<noteq> currentSession startedOnce ''img-1''"
  by (simp add: startedOnce_def startedTwice_def startedSession_def startImageSession_def
        recordCheckpoint_def logToConsole_def emptyRuntime_def Let_def)

text \<open>
  Claim C3 as amended. Calling \<^verbatim>\<open>startImageSession\<close> for a task, whether or not it has
  a live session, stores a fresh session under the task id (no stages, no end time,
  zero browser restarts, a non-success outcome, the current time as start time) and
  logs the start; the sessions of all other tasks and the files stay as they are.
\<close>

theorem start_replaces_session:
  "(\<exists>s. currentSession (startImageSession iid jid u now w) iid = Some s
        \<and> imageId s = iid \<and> jobId s = jid \<and> url s = u \<and> startTime s = now
        \<and> endTime s = None \<and> totalDuration s = None \<and> stages s = Map.empty
        \<and> browserRestarts (processState s) = Some 0
        \<and> success (outcome s) = False \<and> diagnostics s = None)
   \<and> (currentSession (startImageSession iid jid u now w))(iid := None) = (currentSession w)(iid := None)
   \<and> console (startImageSession iid jid u now w) = console w @ [LogStarted iid]
   \<and> sessionFiles (startImageSession iid jid u now w) = sessionFiles w
   \<and> summaryFile (startImageSession iid jid u now w) = summaryFile w"
  by (simp add: startImageSession_def logToConsole_def Let_def)

text \<open>
  Claim C5 does not hold in its last part: of the seven operations only
  \<^verbatim>\<open>recordCheckpoint\<close> prints a warning. \<^verbatim>\<open>recordMethodAttempt\<close> for a task without a
  session returns with the state, console included, exactly as it was.
\<close>

theorem missing_session_counterexample:
  "currentSession emptyRuntime ''ghost'' = None
   \<and> recordMethodAttempt ''ghost'' ''viewport-render'' 1 1000 emptyRuntime = Inr emptyRuntime
   \<and> map_sum id console (recordMethodAttempt ''ghost'' ''viewport-render'' 1 1000 emptyRuntime)
        = Inr []"
  by (simp add: recordMethodAttempt_def emptyRuntime_def)

text \<open>
  Claim C5 as amended. For a task id without a live session none of the seven
  operations throws and none changes the live sessions or the files;
  \<^verbatim>\<open>recordCheckpoint\<close> appends the warning to the console, and the other six
  (\<^verbatim>\<open>recordMethodAttempt\<close>, \<^verbatim>\<open>recordMethodResult\<close>, \<^verbatim>\<open>recordProcessState\<close>,
  \<^verbatim>\<open>recordOutcome\<close>, \<^verbatim>\<open>endImageSession\<close>, \<^verbatim>\<open>saveDiagnostics\<close>) return the state unchanged
  without any output (\<open>None\<close> says that \<^verbatim>\<open>endImageSession\<close> and \<^verbatim>\<open>saveDiagnostics\<close> threw
  nothing).
\<close>

theorem missing_session_noop:
  assumes "currentSession w iid = None"
  shows "recordCheckpoint iid stageName details mem now1 now2 w = w\<lparr>console := console w @ [WarnNoSession iid]\<rparr>
    \<and> recordMethodAttempt iid mname mnumber start w = Inr w
    \<and> recordMethodResult iid mnumber succ err dstate edetails now w = Inr w
    \<and> recordProcessState iid state w = w
    \<and> recordOutcome iid succ err stack skip reason now w = w
    \<and> endImageSession iid now1 now2 now3 w = (None, w)
    \<and> saveDiagnostics iid screenshotBuffer htmlSnapshot logs errors w = (None, w)"
  using assms
  by (simp add: recordCheckpoint_def recordMethodAttempt_def recordMethodResult_def
        recordProcessState_def recordOutcome_def endImageSession_def saveDiagnostics_def
        logToConsole_def)

theorem missing_session_noop_witness:
  "currentSession emptyRuntime ''ghost'' = None
   \<and> recordCheckpoint ''ghost'' Navigation None sampleMemory 10 10 emptyRuntime
        = emptyRuntime\<lparr>console := console emptyRuntime @ [WarnNoSession ''ghost'']\<rparr>
   \<and> recordMethodAttempt ''ghost'' ''viewport-render'' 1 10 emptyRuntime = Inr emptyRuntime
   \<and> recordMethodResult ''ghost'' 1 True None None None 10 emptyRuntime = Inr emptyRuntime
   \<and> recordProcessState ''ghost'' emptyProcessState emptyRuntime = emptyRuntime
   \<and> recordOutcome ''ghost'' True None None None None 10 emptyRuntime = emptyRuntime
   \<and> endImageSession ''ghost'' 10 10 10 emptyRuntime = (None, emptyRuntime)
   \<and> saveDiagnostics ''ghost'' None None None None emptyRuntime = (None, emptyRuntime)"
proof -
  have missing: "currentSession emptyRuntime ''ghost'' = None"
    by (simp add: emptyRuntime_def)
  from missing
    missing_session_noop [OF missing, of Navigation None sampleMemory 10 10 "''viewport-render''"
      1 10 True None None None 10 emptyProcessState None None None 10 None None None None]
  show ?thesis by blast
qed

text \<open>
  Claim C8 fails on the code for a live session whose canvas-extraction stage was written
  by \<^verbatim>\<open>recordCheckpoint\<close> without a \<^verbatim>\<open>methods\<close> list: \<^verbatim>\<open>recordMethodResult\<close> for a method
  number that was never begun then throws a \<^verbatim>\<open>TypeError\<close> instead of returning.
\<close>

theorem result_without_methods_throws:
  "currentSession checkpointedCanvas ''img-1'' \<noteq> None
   \<and> recordMethodResult ''img-1'' 1 True None None None 1300 checkpointedCanvas = Inl TypeError"
  by (simp add: checkpointedCanvas_def startedSession_def recordMethodResult_def
        recordCheckpoint_def startImageSession_def logToConsole_def emptyRuntime_def Let_def)

text \<open>
  Where the stage is absent, or holds a \<^verbatim>\<open>methods\<close> list without the method number, the
  call does return with the state unchanged.
\<close>

lemma find_unknown_number:
  "mnumber \<notin> methodNumber ` set ms \<Longrightarrow> find (\<lambda>m. methodNumber m = mnumber) ms = None"
  by (auto simp: find_None_iff)

lemma recordMethodResult_unknown_rank:
  assumes "currentSession w iid = Some s"
    and "stages s CanvasExtraction = None
         \<or> (\<exists>c ms. stages s CanvasExtraction = Some c \<and> methods c = Some ms
               \<and> mnumber \<notin> methodNumber ` set ms)"
  shows "recordMethodResult iid mnumber succ err dstate edetails now w = Inr w"
  using assms by (auto simp: recordMethodResult_def find_unknown_number)

text \<open>
  Claim C10. For a live session, \<^verbatim>\<open>recordCheckpoint\<close> on the canvas-extraction stage
  stores a stage object with the timestamp and elapsed time of the new checkpoint
  (unless the details override them) whose \<^verbatim>\<open>methods\<close>, \<^verbatim>\<open>totalAttempts\<close> and
  \<^verbatim>\<open>successfulMethod\<close> are those of the supplied details and absent when the details do
  not carry them; what the stage held before has no influence: the call gives the same
  state as on a session from which the stage has been removed.
\<close>

theorem checkpoint_replaces_canvas_stage:
  assumes "currentSession w iid = Some s"
  shows "(\<exists>c'. canvasStage (recordCheckpoint iid CanvasExtraction details mem now1 now2 w) iid = Some c'
           \<and> timestamp c' = (case details of None \<Rightarrow> now1
                               | Some d \<Rightarrow> (case d_timestamp d of None \<Rightarrow> now1 | Some t \<Rightarrow> t))
           \<and> elapsed c' = (case details of None \<Rightarrow> now2 - startTime s
                             | Some d \<Rightarrow> (case d_elapsed d of None \<Rightarrow> now2 - startTime s | Some t \<Rightarrow> t))
           \<and> methods c' = (case details of None \<Rightarrow> None | Some d \<Rightarrow> d_methods d)
           \<and> totalAttempts c' = (case details of None \<Rightarrow> None | Some d \<Rightarrow> d_totalAttempts d)
           \<and> successfulMethod c' = (case details of None \<Rightarrow> None | Some d \<Rightarrow> d_successfulMethod d))
    \<and> recordCheckpoint iid CanvasExtraction details mem now1 now2 w
        = recordCheckpoint iid CanvasExtraction details mem now1 now2
            (w\<lparr>currentSession := (currentSession w)
                  (iid \<mapsto> s\<lparr>stages := (stages s)(CanvasExtraction := None)\<rparr>)\<rparr>)"
  using assms
  by (cases details)
    (simp_all add: recordCheckpoint_def canvasStage_def logToConsole_def Let_def override_None
       split: option.splits)

theorem checkpoint_replaces_canvas_stage_witness:
  "\<exists>w c. attemptedTwice = Inr w
      \<and> canvasStage w ''img-1'' = Some c
      \<and> map_option length (methods c) = Some 2
      \<and> (\<exists>c'. canvasStage (recordCheckpoint ''img-1'' CanvasExtraction None sampleMemory 1300 1300 w) ''img-1'' = Some c'
            \<and> methods c' = None \<and> totalAttempts c' = None \<and> successfulMethod c' = None)"
proof -
  have "\<exists>w s c. attemptedTwice = Inr w \<and> currentSession w ''img-1'' = Some s
      \<and> canvasStage w ''img-1'' = Some c \<and> map_option length (methods c) = Some 2"
    by (simp add: attemptedTwice_def startedSession_def rankedAttempts_def
          recordMethodAttempt_def startImageSession_def logToConsole_def emptyRuntime_def
          canvasStage_def Let_def)
  then obtain w s c where w: "attemptedTwice = Inr w" "currentSession w ''img-1'' = Some s"
      "canvasStage w ''img-1'' = Some c" "map_option length (methods c) = Some 2"
    by blast
  from checkpoint_replaces_canvas_stage [OF w(2), of None sampleMemory 1300 1300, THEN conjunct1]
  have "\<exists>c'. canvasStage (recordCheckpoint ''img-1'' CanvasExtraction None sampleMemory 1300 1300 w) ''img-1'' = Some c'
            \<and> methods c' = None \<and> totalAttempts c' = None \<and> successfulMethod c' = None"
    by auto
  with w show ?thesis by blast
qed

section \<open>Properties of the statistics\<close>

lemma endsWith_json1: "endsWith ''img-1_1100.json'' ''.json''"
  by (simp add: endsWith_def)

lemma endsWith_json2: "endsWith ''img-2_2200.json'' ''.json''"
  by (simp add: endsWith_def)

lemma endsWith_json3: "endsWith ''img-3_3300.json'' ''.json''"
  by (simp add: endsWith_def)

lemma endsWith_append: "endsWith (s @ suffix) suffix"
  by (simp add: endsWith_def)

lemma endsWith_Cons: "endsWith s suffix \<Longrightarrow> endsWith (c # s) suffix"
  by (simp add: endsWith_def Suc_diff_le)

subsection \<open>The scan of the directory\<close>

lemma scan_records:
  "sessionRecordsOnly entries \<Longrightarrow>
     scanSessionFiles entries state =
       (Inr (fst (foldl countMethod state (persistedAttempts entries))),
        snd (foldl countMethod state (persistedAttempts entries)))"
proof (induction entries arbitrary: state)
  case Nil
  then show ?case by simp
next
  case (Cons x entries)
  obtain g c where x: "x = (g, c)" by (cases x)
  from Cons.prems x have rest: "sessionRecordsOnly entries"
    by simp
  show ?case
  proof (cases "endsWith g ''.json''")
    case False
    then show ?thesis unfolding x by (simp add: Cons.IH [OF rest])
  next
    case True
    with Cons.prems x obtain session where c: "c = SessionJson session"
      by (cases c) simp_all
    from True show ?thesis unfolding x c
      by (simp add: Cons.IH [OF rest] split: option.splits)
  qed
qed

lemma scan_throws:
  "\<not> sessionRecordsOnly entries \<Longrightarrow> \<exists>e. fst (scanSessionFiles entries state) = Inl e"
proof (induction entries arbitrary: state)
  case Nil
  then show ?case by simp
next
  case (Cons x entries)
  obtain g c where x: "x = (g, c)" by (cases x)
  show ?case
  proof (cases "endsWith g ''.json''")
    case False
    with Cons.prems x have "\<not> sessionRecordsOnly entries" by simp
    from Cons.IH [OF this] False show ?thesis unfolding x by simp
  next
    case True
    show ?thesis
    proof (cases c)
      case (SessionJson session)
      with Cons.prems x True have "\<not> sessionRecordsOnly entries" by simp
      from Cons.IH [OF this] True SessionJson show ?thesis unfolding x by simp
    qed (use True in \<open>simp_all add: x\<close>)
  qed
qed

lemma scan_first_error:
  "find (\<lambda>(g, d). endsWith g ''.json'' \<and> isl (readSession d)) entries = Some (f, c) \<Longrightarrow>
   readSession c = Inl e \<Longrightarrow>
     fst (scanSessionFiles entries state) = Inl e"
proof (induction entries arbitrary: state)
  case Nil
  then show ?case by simp
next
  case (Cons x entries)
  obtain g d where x: "x = (g, d)" by (cases x)
  show ?case
  proof (cases "endsWith g ''.json'' \<and> isl (readSession d)")
    case True
    with Cons.prems x have "g = f" "d = c" by simp_all
    with True Cons.prems(2) show ?thesis unfolding x by simp
  next
    case False
    with Cons.prems x
    have rest: "find (\<lambda>(g, d). endsWith g ''.json'' \<and> isl (readSession d)) entries = Some (f, c)"
      by simp
    show ?thesis
    proof (cases "endsWith g ''.json''")
      case True
      with False obtain session where "readSession d = Inr session"
        by (cases "readSession d") simp_all
      with True Cons.IH [OF rest Cons.prems(2)] show ?thesis unfolding x by simp
    next
      case no: False
      with Cons.IH [OF rest Cons.prems(2)] show ?thesis unfolding x by simp
    qed
  qed
qed

lemma malformed_not_records:
  "(f, c) \<in> set entries \<Longrightarrow> endsWith f ''.json'' \<Longrightarrow> c = Unparseable \<or> c = OtherJson j \<Longrightarrow>
     \<not> sessionRecordsOnly entries"
  by (induction entries) auto

text \<open>
  Claim C4 does not hold in its first part: nothing in the scan is guarded, so one
  record that cannot be parsed makes \<^verbatim>\<open>getMethodStatistics\<close> throw, although the directory
  also holds a well-formed record; and so does one record that holds the JSON text
  \<^verbatim>\<open>{}\<close>.
\<close>

theorem malformed_record_counterexample:
  "sessionFiles corruptDirectory
     = [(''img-1_1100.json'', SessionJson goodRecord), (''img-2_2200.json'', Unparseable)]
   \<and> summaryFile corruptDirectory \<noteq> None
   \<and> fst (getMethodStatistics corruptDirectory) = Inl SyntaxError
   \<and> sessionFiles foreignDirectory
     = [(''img-1_1100.json'', SessionJson goodRecord),
        (''img-3_3300.json'', OtherJson JsonObjectWithoutStages)]
   \<and> summaryFile foreignDirectory \<noteq> None
   \<and> fst (getMethodStatistics foreignDirectory) = Inl TypeError"
  by (simp add: getMethodStatistics_def corruptDirectory_def foreignDirectory_def
        goodDirectory_def goodRecord_def appendToSummary_def emptyRuntime_def countMethod_def
        inheritedNames_def endsWith_json1 endsWith_json2 endsWith_json3 Let_def
        split: prod.splits)

text \<open>
  Claim C4 as amended. While the summary log does not exist, \<^verbatim>\<open>getMethodStatistics\<close>
  reports that no data is available, throws nothing and changes nothing. Once it
  exists, a persisted \<^verbatim>\<open>.json\<close> record that is partially written or malformed (its text
  cannot be parsed, or parses to something that is no session) is not skipped: the
  call throws and returns no statistics, whatever else the directory holds. The error
  is that of the first \<^verbatim>\<open>.json\<close> entry in the listing that cannot be read as a session:
  the parse error for a text that cannot be parsed, a \<^verbatim>\<open>TypeError\<close> for another JSON
  text.
\<close>

theorem statistics_abort_on_malformed:
  "(summaryFile w = None \<longrightarrow> getMethodStatistics w = (Inr NoSummaryData, w))
   \<and> (summaryFile w \<noteq> None \<and> (f, c) \<in> set (sessionFiles w) \<and> endsWith f ''.json''
        \<and> (c = Unparseable \<or> c = OtherJson j)
        \<longrightarrow> (\<exists>e. fst (getMethodStatistics w) = Inl e))
   \<and> (summaryFile w \<noteq> None
        \<and> find (\<lambda>(g, d). endsWith g ''.json'' \<and> isl (readSession d)) (sessionFiles w)
            = Some (f', Unparseable)
        \<longrightarrow> fst (getMethodStatistics w) = Inl SyntaxError)
   \<and> (summaryFile w \<noteq> None
        \<and> find (\<lambda>(g, d). endsWith g ''.json'' \<and> isl (readSession d)) (sessionFiles w)
            = Some (f'', OtherJson j')
        \<longrightarrow> fst (getMethodStatistics w) = Inl TypeError)"
proof (intro conjI impI)
  assume "summaryFile w = None"
  then show "getMethodStatistics w = (Inr NoSummaryData, w)"
    by (simp add: getMethodStatistics_def)
next
  assume a: "summaryFile w \<noteq> None \<and> (f, c) \<in> set (sessionFiles w) \<and> endsWith f ''.json''
        \<and> (c = Unparseable \<or> c = OtherJson j)"
  then have "\<not> sessionRecordsOnly (sessionFiles w)"
    using malformed_not_records by blast
  from scan_throws [OF this, of "(Map.empty, prototypeKeys w)"] obtain e
    where "fst (scanSessionFiles (sessionFiles w) (Map.empty, prototypeKeys w)) = Inl e"
    by blast
  with a show "\<exists>e. fst (getMethodStatistics w) = Inl e"
    by (auto simp: getMethodStatistics_def Let_def split: prod.splits)
next
  assume a: "summaryFile w \<noteq> None
        \<and> find (\<lambda>(g, d). endsWith g ''.json'' \<and> isl (readSession d)) (sessionFiles w)
            = Some (f', Unparseable)"
  then have "fst (scanSessionFiles (sessionFiles w) (Map.empty, prototypeKeys w)) = Inl SyntaxError"
    by (intro scan_first_error [where c = Unparseable and f = f']) simp_all
  with a show "fst (getMethodStatistics w) = Inl SyntaxError"
    by (auto simp: getMethodStatistics_def Let_def split: prod.splits)
next
  assume a: "summaryFile w \<noteq> None
        \<and> find (\<lambda>(g, d). endsWith g ''.json'' \<and> isl (readSession d)) (sessionFiles w)
            = Some (f'', OtherJson j')"
  then have "fst (scanSessionFiles (sessionFiles w) (Map.empty, prototypeKeys w)) = Inl TypeError"
    by (intro scan_first_error [where c = "OtherJson j'" and f = f'']) simp_all
  with a show "fst (getMethodStatistics w) = Inl TypeError"
    by (auto simp: getMethodStatistics_def Let_def split: prod.splits)
qed

theorem statistics_abort_on_malformed_witness:
  "summaryFile emptyRuntime = None
   \<and> getMethodStatistics emptyRuntime = (Inr NoSummaryData, emptyRuntime)
   \<and> summaryFile corruptDirectory \<noteq> None
   \<and> (''img-2_2200.json'', Unparseable) \<in> set (sessionFiles corruptDirectory)
   \<and> endsWith ''img-2_2200.json'' ''.json''
   \<and> find (\<lambda>(g, d). endsWith g ''.json'' \<and> isl (readSession d)) (sessionFiles corruptDirectory)
       = Some (''img-2_2200.json'', Unparseable)
   \<and> fst (getMethodStatistics corruptDirectory) = Inl SyntaxError
   \<and> summaryFile foreignDirectory \<noteq> None
   \<and> find (\<lambda>(g, d). endsWith g ''.json'' \<and> isl (readSession d)) (sessionFiles foreignDirectory)
       = Some (''img-3_3300.json'', OtherJson JsonObjectWithoutStages)
   \<and> fst (getMethodStatistics foreignDirectory) = Inl TypeError"
proof -
  have a: "summaryFile emptyRuntime = None"
    by (simp add: emptyRuntime_def)
  have b: "summaryFile corruptDirectory \<noteq> None"
      "(''img-2_2200.json'', Unparseable) \<in> set (sessionFiles corruptDirectory)"
      "endsWith ''img-2_2200.json'' ''.json''"
      "find (\<lambda>(g, d). endsWith g ''.json'' \<and> isl (readSession d)) (sessionFiles corruptDirectory)
         = Some (''img-2_2200.json'', Unparseable)"
    by (simp_all add: corruptDirectory_def goodDirectory_def appendToSummary_def
          endsWith_json1 endsWith_json2)
  have c: "summaryFile foreignDirectory \<noteq> None"
      "find (\<lambda>(g, d). endsWith g ''.json'' \<and> isl (readSession d)) (sessionFiles foreignDirectory)
         = Some (''img-3_3300.json'', OtherJson JsonObjectWithoutStages)"
    by (simp_all add: foreignDirectory_def goodDirectory_def appendToSummary_def
          endsWith_json1 endsWith_json3)
  from a statistics_abort_on_malformed [of emptyRuntime]
  have 1: "getMethodStatistics emptyRuntime = (Inr NoSummaryData, emptyRuntime)" by blast
  from b statistics_abort_on_malformed
      [of corruptDirectory "''img-2_2200.json''" Unparseable _ "''img-2_2200.json''"]
  have 2: "fst (getMethodStatistics corruptDirectory) = Inl SyntaxError" by blast
  from c statistics_abort_on_malformed
      [of foreignDirectory _ _ _ _ "''img-3_3300.json''" JsonObjectWithoutStages]
  have 3: "fst (getMethodStatistics foreignDirectory) = Inl TypeError" by blast
  from a b c 1 2 3 show ?thesis by blast
qed

subsection \<open>The counters\<close>

lemma proto_inherited: "''__proto__'' \<in> set inheritedNames"
  by (simp add: inheritedNames_def)

lemma countMethod_other:
  "methodName m \<noteq> n \<Longrightarrow> fst (countMethod state m) n = fst state n"
  by (simp add: countMethod_def Let_def)

lemma countMethod_inherited:
  "methodName m \<in> set inheritedNames \<Longrightarrow> fst (countMethod state m) = fst state"
  by (simp add: countMethod_def Let_def)

lemma countMethod_same:
  "methodName m = n \<Longrightarrow> n \<notin> set inheritedNames \<Longrightarrow>
     fst (countMethod state m) n
       = Some (bump (case fst state n of None \<Rightarrow> zeroStats | Some e \<Rightarrow> e) [m])"
  using proto_inherited
  by (auto simp: countMethod_def bump_def zeroStats_def Let_def split: option.splits)

lemma countMethod_written:
  "''__proto__'' \<noteq> methodName m \<Longrightarrow> snd (countMethod state m) = snd state"
  by (auto simp: countMethod_def Let_def)

lemma bump_Cons: "bump (bump e [m]) xs = bump e (m # xs)"
  by (simp add: bump_def)

lemma foldl_countMethod:
  "n \<notin> set inheritedNames \<Longrightarrow>
   fst (foldl countMethod state as) n =
     (if filter (\<lambda>m. methodName m = n) as = [] then fst state n
      else Some (bump (case fst state n of None \<Rightarrow> zeroStats | Some e \<Rightarrow> e)
                   (filter (\<lambda>m. methodName m = n) as)))"
proof (induction as arbitrary: state)
  case Nil
  then show ?case by simp
next
  case (Cons m as)
  show ?case
  proof (cases "methodName m = n")
    case True
    with Cons.prems show ?thesis
      by (simp add: Cons.IH countMethod_same bump_Cons)
  next
    case False
    with Cons.prems show ?thesis
      by (simp add: Cons.IH countMethod_other)
  qed
qed

lemma foldl_countMethod_inherited:
  "n \<in> set inheritedNames \<Longrightarrow> fst (foldl countMethod state as) n = fst state n"
proof (induction as arbitrary: state)
  case Nil
  then show ?case by simp
next
  case (Cons m as)
  have "fst (countMethod state m) n = fst state n"
  proof (cases "methodName m = n")
    case True
    with Cons.prems show ?thesis by (simp add: countMethod_inherited)
  next
    case False
    then show ?thesis by (simp add: countMethod_other)
  qed
  with Cons show ?case by simp
qed

lemma foldl_countMethod_written:
  "''__proto__'' \<notin> methodName ` set as \<Longrightarrow> snd (foldl countMethod state as) = snd state"
  by (induction as arbitrary: state) (simp_all add: countMethod_written)

lemma expectedStats_entry:
  "expectedStats as = Some e \<Longrightarrow>
     1 \<le> attempts e \<and> attempts e = successes e + failures e
     \<and> avgDuration e = of_int (stats_totalDuration e) / of_int (attempts e)"
proof -
  assume a: "expectedStats as = Some e"
  then have ne: "as \<noteq> []"
    by (auto simp: expectedStats_def split: if_splits)
  then have "1 \<le> length as"
    by (cases as) simp_all
  moreover have "length (filter attempt_success as) + length (filter (\<lambda>m. \<not> attempt_success m) as) = length as"
    by (rule sum_length_filter_compl)
  ultimately show ?thesis using a ne
    by (auto simp: expectedStats_def)
qed

lemma averaged_entries:
  "setAverages (fst (foldl countMethod (Map.empty, written) as)) n =
     (if n \<in> set inheritedNames then None
      else expectedStats (filter (\<lambda>m. methodName m = n) as))"
  by (simp add: setAverages_def foldl_countMethod foldl_countMethod_inherited expectedStats_def
        bump_def zeroStats_def)

lemma returned_statistics:
  assumes "fst (getMethodStatistics w) = Inr (Statistics k st)"
  shows "summaryFile w = Some ls \<longrightarrow> k = length ls"
    and "st n = (if n \<in> set inheritedNames then None
                 else expectedStats (filter (\<lambda>m. methodName m = n)
                        (persistedAttempts (sessionFiles w))))"
proof -
  from assms obtain lines where lines: "summaryFile w = Some lines"
    by (cases "summaryFile w") (simp_all add: getMethodStatistics_def)
  let ?scan = "scanSessionFiles (sessionFiles w) (Map.empty, prototypeKeys w)"
  from assms lines obtain ms where ms: "fst ?scan = Inr ms"
      and res: "averageAll ms (snd ?scan) = Inr st" and k: "k = length lines"
    by (auto simp: getMethodStatistics_def Let_def split: prod.splits sum.splits)
  have "sessionRecordsOnly (sessionFiles w)"
  proof (rule ccontr)
    assume "\<not> sessionRecordsOnly (sessionFiles w)"
    from scan_throws [OF this, of "(Map.empty, prototypeKeys w)"] ms show False by auto
  qed
  from scan_records [OF this, of "(Map.empty, prototypeKeys w)"] ms
  have "ms = fst (foldl countMethod (Map.empty, prototypeKeys w) (persistedAttempts (sessionFiles w)))"
    by simp
  moreover from res have "st = setAverages ms"
    by (auto simp: averageAll_def split: if_splits)
  ultimately show "st n = (if n \<in> set inheritedNames then None
                 else expectedStats (filter (\<lambda>m. methodName m = n)
                        (persistedAttempts (sessionFiles w))))"
    by (simp only: averaged_entries)
  from lines k show "summaryFile w = Some ls \<longrightarrow> k = length ls"
    by simp
qed

lemma statistics_returned:
  assumes "summaryFile w = Some ls" and "sessionRecordsOnly (sessionFiles w)"
    and "prototypeKeys w = []"
    and "''__proto__'' \<notin> methodName ` set (persistedAttempts (sessionFiles w))"
  shows "\<exists>st. getMethodStatistics w = (Inr (Statistics (length ls) st), w)"
proof -
  from assms(3,4)
  have "snd (foldl countMethod (Map.empty, prototypeKeys w) (persistedAttempts (sessionFiles w))) = []"
    by (simp add: foldl_countMethod_written)
  with assms(1,3) scan_records [OF assms(2), of "(Map.empty, prototypeKeys w)"]
  show ?thesis
    by (simp add: getMethodStatistics_def averageAll_def Let_def)
qed

lemma threeSessions_statistics:
  "\<exists>w3 st. threeSessions = Inr w3
      \<and> fst (getMethodStatistics w3) = Inr (Statistics 3 st)
      \<and> st ''viewport-render'' =
          Some \<lparr>attempts = 3, successes = 2, failures = 1, avgDuration = (100 + 200 + 50) / 3,
                stats_totalDuration = 350\<rparr>"
  by (simp add: threeSessions_def runTask_def startImageSession_def recordMethodAttempt_def
        recordMethodResult_def recordOutcome_def endImageSession_def appendToSummary_def
        numberText_def getMethodStatistics_def averageAll_def setAverages_def countMethod_def
        inheritedNames_def logToConsole_def emptyRuntime_def endsWith_append endsWith_Cons
        Let_def)

text \<open>
  Claim C7 does not hold as it stands. The call returns per-method statistics only
  under conditions the claim does not state: with a persisted session record but no
  summary log it returns the message that no data is available, and with a session
  record beside a record that cannot be parsed it throws. And for a method with the
  name \<^verbatim>\<open>constructor\<close>, which \<^verbatim>\<open>methodStats\<close> inherits from \<^verbatim>\<open>Object.prototype\<close>, the returned
  statistics have no entry.
\<close>

theorem method_statistics_counterexample:
  "map methodName (persistedAttempts (sessionFiles orphanedRecord)) = [''viewport-render'']
   \<and> fst (getMethodStatistics orphanedRecord) = Inr NoSummaryData
   \<and> map methodName (persistedAttempts (sessionFiles corruptDirectory)) = [''viewport-render'']
   \<and> fst (getMethodStatistics corruptDirectory) = Inl SyntaxError
   \<and> map methodName (persistedAttempts (sessionFiles constructorDirectory)) = [''constructor'']
   \<and> fst (getMethodStatistics constructorDirectory) = Inr (Statistics 1 Map.empty)"
  by (simp add: getMethodStatistics_def orphanedRecord_def constructorDirectory_def
        corruptDirectory_def goodDirectory_def
        constructorRecord_def goodRecord_def appendToSummary_def emptyRuntime_def
        countMethod_def inheritedNames_def averageAll_def setAverages_def endsWith_json1
        endsWith_json2 Let_def split: prod.splits)

text \<open>
  Claim C7 as amended. Whenever \<^verbatim>\<open>getMethodStatistics\<close> returns statistics, the session
  count is the number of lines of the summary log, and for every method name that is
  not a property name of \<^verbatim>\<open>Object.prototype\<close> the entry holds the number of persisted
  attempts with that name, how many of them succeeded and failed, and the sum of their
  durations divided by the number of attempts; a name without attempts has no entry,
  so every entry has at least one attempt and its average is a quotient by a non-zero
  count (never 0/0). It does return statistics when the summary log exists, every
  \<^verbatim>\<open>.json\<close> entry of the directory is a session record, no method has the name
  \<^verbatim>\<open>__proto__\<close> and nothing has been written onto \<^verbatim>\<open>Object.prototype\<close>. For the three
  persisted sessions in which \<^verbatim>\<open>viewport-render\<close> succeeds after 100 ms and 200 ms and
  fails after 50 ms, the entry is 3 attempts, 2 successes, 1 failure and the average
  (100 + 200 + 50) / 3.
\<close>

theorem method_statistics:
  "(fst (getMethodStatistics w) = Inr (Statistics k st) \<longrightarrow>
      (\<exists>ls. summaryFile w = Some ls \<and> k = length ls)
      \<and> (\<forall>n. n \<notin> set inheritedNames \<longrightarrow>
            st n = expectedStats (filter (\<lambda>m. methodName m = n) (persistedAttempts (sessionFiles w))))
      \<and> (\<forall>n e. st n = Some e \<longrightarrow>
            1 \<le> attempts e \<and> attempts e = successes e + failures e
            \<and> avgDuration e = of_int (stats_totalDuration e) / of_int (attempts e)))
   \<and> (summaryFile w = Some ls \<and> sessionRecordsOnly (sessionFiles w) \<and> prototypeKeys w = []
        \<and> ''__proto__'' \<notin> methodName ` set (persistedAttempts (sessionFiles w)) \<longrightarrow>
      (\<exists>st'. getMethodStatistics w = (Inr (Statistics (length ls) st'), w)))
   \<and> (\<exists>w3 st3. threeSessions = Inr w3
         \<and> fst (getMethodStatistics w3) = Inr (Statistics 3 st3)
         \<and> st3 ''viewport-render'' =
             Some \<lparr>attempts = 3, successes = 2, failures = 1, avgDuration = (100 + 200 + 50) / 3,
                   stats_totalDuration = 350\<rparr>)"
proof (intro conjI)
  show "fst (getMethodStatistics w) = Inr (Statistics k st) \<longrightarrow>
      (\<exists>ls. summaryFile w = Some ls \<and> k = length ls)
      \<and> (\<forall>n. n \<notin> set inheritedNames \<longrightarrow>
            st n = expectedStats (filter (\<lambda>m. methodName m = n) (persistedAttempts (sessionFiles w))))
      \<and> (\<forall>n e. st n = Some e \<longrightarrow>
            1 \<le> attempts e \<and> attempts e = successes e + failures e
            \<and> avgDuration e = of_int (stats_totalDuration e) / of_int (attempts e))"
  proof
    assume r: "fst (getMethodStatistics w) = Inr (Statistics k st)"
    then obtain lines where "summaryFile w = Some lines"
      by (cases "summaryFile w") (simp_all add: getMethodStatistics_def)
    with returned_statistics(1) [OF r, of lines]
    have count: "\<exists>ls. summaryFile w = Some ls \<and> k = length ls" by simp
    have entries: "st n = expectedStats (filter (\<lambda>m. methodName m = n) (persistedAttempts (sessionFiles w)))"
      if "n \<notin> set inheritedNames" for n
      using returned_statistics(2) [OF r, of n] that by simp
    have sound: "1 \<le> attempts e \<and> attempts e = successes e + failures e
            \<and> avgDuration e = of_int (stats_totalDuration e) / of_int (attempts e)"
      if e: "st n = Some e" for n e
    proof -
      from returned_statistics(2) [OF r, of n] e
      have "expectedStats (filter (\<lambda>m. methodName m = n) (persistedAttempts (sessionFiles w))) = Some e"
        by (simp split: if_splits)
      then show ?thesis by (rule expectedStats_entry)
    qed
    from count entries sound
    show "(\<exists>ls. summaryFile w = Some ls \<and> k = length ls)
      \<and> (\<forall>n. n \<notin> set inheritedNames \<longrightarrow>
            st n = expectedStats (filter (\<lambda>m. methodName m = n) (persistedAttempts (sessionFiles w))))
      \<and> (\<forall>n e. st n = Some e \<longrightarrow>
            1 \<le> attempts e \<and> attempts e = successes e + failures e
            \<and> avgDuration e = of_int (stats_totalDuration e) / of_int (attempts e))"
      by blast
  qed
next
  show "summaryFile w = Some ls \<and> sessionRecordsOnly (sessionFiles w) \<and> prototypeKeys w = []
        \<and> ''__proto__'' \<notin> methodName ` set (persistedAttempts (sessionFiles w)) \<longrightarrow>
      (\<exists>st'. getMethodStatistics w = (Inr (Statistics (length ls) st'), w))"
    by (simp add: statistics_returned)
next
  show "\<exists>w3 st3. threeSessions = Inr w3
         \<and> fst (getMethodStatistics w3) = Inr (Statistics 3 st3)
         \<and> st3 ''viewport-render'' =
             Some \<lparr>attempts = 3, successes = 2, failures = 1, avgDuration = (100 + 200 + 50) / 3,
                   stats_totalDuration = 350\<rparr>"
    by (rule threeSessions_statistics)
qed

theorem method_statistics_witness:
  "(\<exists>l. summaryFile goodDirectory = Some [l])
   \<and> sessionFiles goodDirectory = [(''img-1_1100.json'', SessionJson goodRecord)]
   \<and> sessionRecordsOnly (sessionFiles goodDirectory)
   \<and> prototypeKeys goodDirectory = []
   \<and> ''__proto__'' \<notin> methodName ` set (persistedAttempts (sessionFiles goodDirectory))
   \<and> ''viewport-render'' \<notin> set inheritedNames
   \<and> ''canvas-toDataURL'' \<notin> set inheritedNames
   \<and> (\<exists>st. getMethodStatistics goodDirectory = (Inr (Statistics 1 st), goodDirectory)
         \<and> st ''viewport-render'' =
             Some \<lparr>attempts = 1, successes = 1, failures = 0, avgDuration = 100,
                   stats_totalDuration = 100\<rparr>
         \<and> st ''canvas-toDataURL'' = None)"
proof -
  obtain l where c: "summaryFile goodDirectory = Some [l]"
    by (simp add: goodDirectory_def appendToSummary_def emptyRuntime_def)
  have files: "sessionFiles goodDirectory = [(''img-1_1100.json'', SessionJson goodRecord)]"
    by (simp add: goodDirectory_def)
  have attempts: "map methodName (persistedAttempts (sessionFiles goodDirectory)) = [''viewport-render'']"
    by (simp add: files endsWith_json1 goodRecord_def)
  have d: "sessionRecordsOnly (sessionFiles goodDirectory)"
    by (simp add: files)
  have p: "prototypeKeys goodDirectory = []"
    by (simp add: goodDirectory_def appendToSummary_def emptyRuntime_def)
  have q: "''__proto__'' \<notin> methodName ` set (persistedAttempts (sessionFiles goodDirectory))"
    using attempts by (simp add: files endsWith_json1 goodRecord_def)
  have names: "''viewport-render'' \<notin> set inheritedNames" "''canvas-toDataURL'' \<notin> set inheritedNames"
    by (simp_all add: inheritedNames_def)
  note T = method_statistics [of goodDirectory]
  from T [of 0 Map.empty "[l]"]
  have "summaryFile goodDirectory = Some [l] \<and> sessionRecordsOnly (sessionFiles goodDirectory)
        \<and> prototypeKeys goodDirectory = []
        \<and> ''__proto__'' \<notin> methodName ` set (persistedAttempts (sessionFiles goodDirectory)) \<longrightarrow>
      (\<exists>st'. getMethodStatistics goodDirectory = (Inr (Statistics (length [l]) st'), goodDirectory))"
    by blast
  with c d p q
  obtain st where st: "getMethodStatistics goodDirectory = (Inr (Statistics 1 st), goodDirectory)"
    by auto
  then have r: "fst (getMethodStatistics goodDirectory) = Inr (Statistics 1 st)"
    by simp
  from T [of 1 st "[l]"]
  have "fst (getMethodStatistics goodDirectory) = Inr (Statistics 1 st) \<longrightarrow>
      (\<forall>n. n \<notin> set inheritedNames \<longrightarrow>
            st n = expectedStats (filter (\<lambda>m. methodName m = n)
                     (persistedAttempts (sessionFiles goodDirectory))))"
    by blast
  with r names
  have e: "st ''viewport-render''
        = expectedStats (filter (\<lambda>m. methodName m = ''viewport-render'')
            (persistedAttempts (sessionFiles goodDirectory)))"
      "st ''canvas-toDataURL''
        = expectedStats (filter (\<lambda>m. methodName m = ''canvas-toDataURL'')
            (persistedAttempts (sessionFiles goodDirectory)))"
    by blast+
  have "st ''viewport-render'' =
          Some \<lparr>attempts = 1, successes = 1, failures = 0, avgDuration = 100, stats_totalDuration = 100\<rparr>"
    by (simp add: e(1) files endsWith_json1 goodRecord_def expectedStats_def)
  moreover have "st ''canvas-toDataURL'' = None"
    by (simp add: e(2) files endsWith_json1 goodRecord_def expectedStats_def)
  ultimately show ?thesis using c files d p q names st by blast
qed

section \<open>Properties of the method attempts\<close>

lemma attempt_step:
  assumes "canvasHolds w iid ms sm"
  shows "\<exists>w'. recordMethodAttempt iid nm r st w = Inr w'
           \<and> canvasHolds w' iid (ms @ [freshAttempt (nm, r, st)]) sm"
  using assms
  by (auto simp: canvasHolds_def canvasStage_def recordMethodAttempt_def freshAttempt_def
        logToConsole_def Let_def split: option.splits)

lemma attempt_step_fresh:
  assumes "currentSession w iid = Some s" and "stages s CanvasExtraction = None"
  shows "\<exists>w'. recordMethodAttempt iid nm r st w = Inr w'
           \<and> canvasHolds w' iid [freshAttempt (nm, r, st)] None"
  using assms
  by (auto simp: canvasHolds_def canvasStage_def recordMethodAttempt_def freshAttempt_def
        logToConsole_def Let_def)

lemma attempts_run:
  "canvasHolds w iid ms sm \<Longrightarrow>
     \<exists>w'. recordMethodAttempts iid calls w = Inr w'
        \<and> canvasHolds w' iid (ms @ map freshAttempt calls) sm"
proof (induction calls arbitrary: w ms)
  case Nil
  then show ?case by simp
next
  case (Cons call calls)
  obtain nm r st where call: "call = (nm, r, st)" by (cases call)
  from attempt_step [OF Cons.prems] obtain w1
    where w1: "recordMethodAttempt iid nm r st w = Inr w1"
      "canvasHolds w1 iid (ms @ [freshAttempt (nm, r, st)]) sm"
    by blast
  from Cons.IH [OF w1(2)] obtain w'
    where "recordMethodAttempts iid calls w1 = Inr w'"
      "canvasHolds w' iid ((ms @ [freshAttempt (nm, r, st)]) @ map freshAttempt calls) sm"
    by blast
  with w1(1) show ?case by (simp add: call)
qed

lemma attempts_run_fresh:
  assumes "currentSession w iid = Some s" and "stages s CanvasExtraction = None"
    and "calls \<noteq> []"
  shows "\<exists>w'. recordMethodAttempts iid calls w = Inr w'
           \<and> canvasHolds w' iid (map freshAttempt calls) None"
proof -
  from assms(3) obtain call rest where calls: "calls = call # rest" by (cases calls) auto
  obtain nm r st where call: "call = (nm, r, st)" by (cases call)
  from attempt_step_fresh [OF assms(1,2)] obtain w1
    where w1: "recordMethodAttempt iid nm r st w = Inr w1"
      "canvasHolds w1 iid [freshAttempt (nm, r, st)] None"
    by blast
  from attempts_run [OF w1(2)] obtain w'
    where "recordMethodAttempts iid rest w1 = Inr w'"
      "canvasHolds w' iid ([freshAttempt (nm, r, st)] @ map freshAttempt rest) None"
    by blast
  with w1(1) show ?thesis by (simp add: calls call)
qed

lemma find_map_of_keys:
  "find (\<lambda>m. methodNumber m = r) ms = Some m \<Longrightarrow>
     map_of (methodKeys ms) r = Some (methodName m) \<and> r \<in> fst ` set (methodKeys ms)"
  by (induction ms) (auto simp: methodKeys_def split: if_splits)

lemma find_none_keys:
  "find (\<lambda>m. methodNumber m = r) ms = None \<Longrightarrow> r \<notin> fst ` set (methodKeys ms)"
  by (induction ms) (auto simp: methodKeys_def split: if_splits)

lemma keys_update_first:
  "find (\<lambda>m. methodNumber m = r) ms = Some m \<Longrightarrow>
   methodNumber m' = methodNumber m \<Longrightarrow> methodName m' = methodName m \<Longrightarrow>
     methodKeys (update_first (\<lambda>m. methodNumber m = r) (\<lambda>_. m') ms) = methodKeys ms"
  by (induction ms) (auto simp: methodKeys_def split: if_splits)

lemma result_step:
  assumes "canvasHolds w iid ms sm"
  shows "\<exists>w' ms'. recordMethodResult iid (r_methodNumber r) (r_success r) (r_error r)
                      (r_domState r) (r_extractionDetails r) (r_now r) w = Inr w'
           \<and> canvasHolds w' iid ms' (resultStep (methodKeys ms) sm r)
           \<and> methodKeys ms' = methodKeys ms"
proof (cases "find (\<lambda>m. methodNumber m = r_methodNumber r) ms")
  case None
  with assms have "recordMethodResult iid (r_methodNumber r) (r_success r) (r_error r)
                      (r_domState r) (r_extractionDetails r) (r_now r) w = Inr w"
    by (auto simp: canvasHolds_def canvasStage_def recordMethodResult_def split: option.splits)
  moreover from None have "resultStep (methodKeys ms) sm r = sm"
    by (simp add: resultStep_def find_none_keys)
  ultimately show ?thesis using assms by auto
next
  case (Some m)
  define m' where "m' = m\<lparr>attempt_endTime := Some (r_now r),
                           duration := Some (r_now r - attempt_startTime m),
                           attempt_success := r_success r,
                           attempt_error := r_error r,
                           domState := r_domState r,
                           extractionDetails := r_extractionDetails r\<rparr>"
  have keys: "methodKeys (update_first (\<lambda>m. methodNumber m = r_methodNumber r) (\<lambda>_. m') ms) = methodKeys ms"
    by (rule keys_update_first [OF Some]) (simp_all add: m'_def)
  from find_map_of_keys [OF Some]
  have step: "resultStep (methodKeys ms) sm r = (if r_success r then Some (methodName m) else sm)"
    by (simp add: resultStep_def)
  from assms Some obtain w' where
    "recordMethodResult iid (r_methodNumber r) (r_success r) (r_error r)
        (r_domState r) (r_extractionDetails r) (r_now r) w = Inr w'"
    "canvasHolds w' iid (update_first (\<lambda>m. methodNumber m = r_methodNumber r) (\<lambda>_. m') ms)
        (if r_success r then Some (methodName m) else sm)"
    by (auto simp: canvasHolds_def canvasStage_def recordMethodResult_def logToConsole_def
          m'_def Let_def split: option.splits)
  with keys step show ?thesis by auto
qed

lemma results_run:
  "canvasHolds w iid ms sm \<Longrightarrow>
     \<exists>w' ms'. recordMethodResults iid results w = Inr w'
        \<and> canvasHolds w' iid ms' (foldl (resultStep (methodKeys ms)) sm results)
        \<and> methodKeys ms' = methodKeys ms"
proof (induction results arbitrary: w ms sm)
  case Nil
  then show ?case by auto
next
  case (Cons r results)
  from result_step [OF Cons.prems, of r] obtain w1 ms1 where
    w1: "recordMethodResult iid (r_methodNumber r) (r_success r) (r_error r)
           (r_domState r) (r_extractionDetails r) (r_now r) w = Inr w1"
      "canvasHolds w1 iid ms1 (resultStep (methodKeys ms) sm r)"
      "methodKeys ms1 = methodKeys ms"
    by blast
  from Cons.IH [OF w1(2)] obtain w' ms' where
    "recordMethodResults iid results w1 = Inr w'"
    "canvasHolds w' iid ms' (foldl (resultStep (methodKeys ms1)) (resultStep (methodKeys ms) sm r) results)"
    "methodKeys ms' = methodKeys ms1"
    by blast
  with w1 show ?case by auto
qed

lemma foldl_resultStep:
  "\<forall>r \<in> set results. r_methodNumber r \<in> fst ` set K \<Longrightarrow>
     foldl (resultStep K) sm results =
       (if filter r_success results = [] then sm
        else map_of K (r_methodNumber (last (filter r_success results))))"
  by (induction results rule: rev_induct) (auto simp: resultStep_def)

lemma ranked_keys:
  "methodKeys (map freshAttempt (rankedAttempts chain)) =
     map (\<lambda>i. (int i + 1, fst (chain ! i))) [0..<length chain]"
  by (simp add: methodKeys_def rankedAttempts_def freshAttempt_def)

lemma ranked_lookup:
  assumes "1 \<le> r" and "r \<le> int (length chain)"
  shows "map_of (map (\<lambda>i. (int i + 1, fst (chain ! i))) [0..<length chain]) r
           = Some (fst (chain ! nat (r - 1)))"
    and "r \<in> fst ` set (map (\<lambda>i. (int i + 1, fst (chain ! i))) [0..<length chain])"
proof -
  let ?K = "map (\<lambda>i. (int i + 1, fst (chain ! i))) [0..<length chain]"
  have d: "distinct (map fst ?K)"
    by (simp add: comp_def distinct_map inj_on_def)
  from assms have i: "nat (r - 1) < length chain" "int (nat (r - 1)) + 1 = r"
    by simp_all
  then have mem: "(r, fst (chain ! nat (r - 1))) \<in> set ?K"
    by (auto simp: image_iff intro!: bexI [of _ "nat (r - 1)"])
  with d show "map_of ?K r = Some (fst (chain ! nat (r - 1)))"
    by (simp only: map_of_eq_Some_iff)
  from mem show "r \<in> fst ` set ?K"
    by (rule rev_image_eqI) simp
qed

text \<open>
  Claim C2 does not hold: \<^verbatim>\<open>recordMethodResult\<close> assigns \<^verbatim>\<open>successfulMethod\<close> on every
  successful result, so the last successful result recorded wins. With the ranks 1 and
  2 both recorded as successful, rank 1 first, \<^verbatim>\<open>successfulMethod\<close> is the name of
  rank 2, not that of the lowest successful rank.
\<close>

theorem last_success_wins_counterexample:
  "storedOutcomes twoSuccesses ''img-1''
     = Some [(1, ''viewport-render'', True), (2, ''canvas-toDataURL'', True)]
   \<and> storedSuccessfulMethod twoSuccesses ''img-1'' = Some ''canvas-toDataURL''"
  by (simp add: twoSuccesses_def attemptedTwice_def startedSession_def successAt_def
        storedOutcomes_def
        storedSuccessfulMethod_def rankedAttempts_def recordMethodAttempt_def
        recordMethodResult_def startImageSession_def logToConsole_def emptyRuntime_def
        canvasStage_def Let_def)

text \<open>
  Claim C2 as amended. On a live session without a canvas-extraction stage, beginning
  the attempts of a non-empty chain with the ranks \<open>1..N\<close> and then recording one
  result for each rank, in any order, throws nothing and leaves a canvas-extraction
  stage with \<open>N\<close> methods whose \<^verbatim>\<open>successfulMethod\<close> is the name of the attempt whose
  successful result was recorded last, and is unset when no result was successful.
\<close>

theorem attempts_then_results:
  assumes "currentSession w iid = Some s" and "stages s CanvasExtraction = None"
    and "chain \<noteq> []"
    and "distinct (map r_methodNumber results)"
    and "set (map r_methodNumber results) = {1..int (length chain)}"
  shows "\<exists>w1 w2 c ms.
           recordMethodAttempts iid (rankedAttempts chain) w = Inr w1
         \<and> recordMethodResults iid results w1 = Inr w2
         \<and> canvasStage w2 iid = Some c \<and> methods c = Some ms \<and> length ms = length chain
         \<and> successfulMethod c =
             (if filter r_success results = [] then None
              else Some (fst (chain ! nat (r_methodNumber (last (filter r_success results)) - 1))))"
proof -
  let ?K = "map (\<lambda>i. (int i + 1, fst (chain ! i))) [0..<length chain]"
  let ?ms = "map freshAttempt (rankedAttempts chain)"
  from assms(3) have "rankedAttempts chain \<noteq> []"
    by (simp add: rankedAttempts_def)
  from attempts_run_fresh [OF assms(1,2) this] obtain w1 where
    w1: "recordMethodAttempts iid (rankedAttempts chain) w = Inr w1" "canvasHolds w1 iid ?ms None"
    by blast
  from results_run [OF w1(2), of results, unfolded ranked_keys] obtain w2 ms where
    w2: "recordMethodResults iid results w1 = Inr w2"
      "canvasHolds w2 iid ms (foldl (resultStep ?K) None results)"
      "methodKeys ms = ?K"
    by blast
  have range: "1 \<le> r_methodNumber r \<and> r_methodNumber r \<le> int (length chain)"
    if "r \<in> set results" for r
  proof -
    from that have "r_methodNumber r \<in> set (map r_methodNumber results)" by simp
    with assms(5) show ?thesis by simp
  qed
  then have "\<forall>r \<in> set results. r_methodNumber r \<in> fst ` set ?K"
    using ranked_lookup(2) by blast
  then have fold: "foldl (resultStep ?K) None results =
      (if filter r_success results = [] then None
       else map_of ?K (r_methodNumber (last (filter r_success results))))"
    by (rule foldl_resultStep)
  have final: "map_of ?K (r_methodNumber (last (filter r_success results)))
      = Some (fst (chain ! nat (r_methodNumber (last (filter r_success results)) - 1)))"
    if "filter r_success results \<noteq> []"
  proof -
    from that have "last (filter r_success results) \<in> set (filter r_success results)"
      by (rule last_in_set)
    then have "last (filter r_success results) \<in> set results" by simp
    from range [OF this] show ?thesis by (simp add: ranked_lookup(1))
  qed
  from w2(3) have "length (methodKeys ms) = length chain" by simp
  then have len: "length ms = length chain" by (simp add: methodKeys_def)
  from w2(2) obtain c where c: "canvasStage w2 iid = Some c" "methods c = Some ms"
      "successfulMethod c = foldl (resultStep ?K) None results"
    by (auto simp: canvasHolds_def)
  from w1(1) w2(1) c len fold final show ?thesis by auto
qed

theorem attempts_then_results_witness:
  "(\<exists>s. currentSession startedSession ''img-1'' = Some s \<and> stages s CanvasExtraction = None)
   \<and> distinct (map r_methodNumber [failureAt 2 1250, successAt 1 1300])
   \<and> set (map r_methodNumber [failureAt 2 1250, successAt 1 1300])
        = {1..int (length [(''viewport-render'', 1100::int), (''canvas-toDataURL'', 1200)])}
   \<and> (\<exists>w1 w2 c ms.
         recordMethodAttempts ''img-1''
           (rankedAttempts [(''viewport-render'', 1100), (''canvas-toDataURL'', 1200)]) startedSession = Inr w1
       \<and> recordMethodResults ''img-1'' [failureAt 2 1250, successAt 1 1300] w1 = Inr w2
       \<and> canvasStage w2 ''img-1'' = Some c \<and> methods c = Some ms \<and> length ms = 2
       \<and> successfulMethod c = Some ''viewport-render'')"
proof -
  let ?chain = "[(''viewport-render'', 1100::int), (''canvas-toDataURL'', 1200)]"
  let ?results = "[failureAt 2 1250, successAt 1 1300]"
  obtain s where s: "currentSession startedSession ''img-1'' = Some s" "stages s CanvasExtraction = None"
    by (simp add: startedSession_def startImageSession_def logToConsole_def Let_def)
  have ne: "?chain \<noteq> []" by simp
  have d: "distinct (map r_methodNumber ?results)"
    by (simp add: failureAt_def successAt_def)
  have r: "set (map r_methodNumber ?results) = {1..int (length ?chain)}"
    by (auto simp: failureAt_def successAt_def)
  have len: "length ?chain = 2" by simp
  have sm: "(if filter r_success ?results = [] then None
             else Some (fst (?chain ! nat (r_methodNumber (last (filter r_success ?results)) - 1))))
            = Some ''viewport-render''"
    by (simp add: failureAt_def successAt_def)
  from attempts_then_results [OF s ne d r, unfolded sm len]
  have "\<exists>w1 w2 c ms.
         recordMethodAttempts ''img-1'' (rankedAttempts ?chain) startedSession = Inr w1
       \<and> recordMethodResults ''img-1'' ?results w1 = Inr w2
       \<and> canvasStage w2 ''img-1'' = Some c \<and> methods c = Some ms \<and> length ms = 2
       \<and> successfulMethod c = Some ''viewport-render''"
    by blast
  with s d r show ?thesis by blast
qed

text \<open>
  Claim C9 does not hold: the method number is an argument of \<^verbatim>\<open>recordMethodAttempt\<close>
  that is stored as given. Three calls with the numbers 2, 1 and 1 leave these numbers
  in the list, neither unique nor increasing.
\<close>

theorem unordered_ranks_counterexample:
  "storedMethodNumbers unorderedRanks ''img-1'' = Some [2, 1, 1]"
  by (simp add: unorderedRanks_def startedSession_def storedMethodNumbers_def
        recordMethodAttempt_def startImageSession_def logToConsole_def emptyRuntime_def
        canvasStage_def Let_def)

lemma fresh_numbers: "methodNumber (freshAttempt call) = fst (snd call)"
  by (simp add: freshAttempt_def)

text \<open>
  Claim C9 as amended. After a sequence of \<^verbatim>\<open>recordMethodAttempt\<close> calls on a live session
  whose canvas-extraction stage holds a \<^verbatim>\<open>methods\<close> list, the stored method numbers are
  the ones stored before followed by the numbers the caller passed, in call order; on
  a session without the stage they are the numbers passed; so they are unique and
  increasing when the caller passes strictly increasing numbers.
\<close>

theorem stored_ranks_follow_calls:
  "(storedMethodNumbers (Inr w) iid = Some ns \<longrightarrow>
      storedMethodNumbers (recordMethodAttempts iid calls w) iid
        = Some (ns @ map (\<lambda>call. fst (snd call)) calls))
   \<and> (currentSession w iid = Some s \<and> stages s CanvasExtraction = None \<and> calls \<noteq> [] \<longrightarrow>
      storedMethodNumbers (recordMethodAttempts iid calls w) iid
        = Some (map (\<lambda>call. fst (snd call)) calls))
   \<and> (currentSession w iid = Some s \<and> stages s CanvasExtraction = None \<and> calls \<noteq> []
        \<and> sorted_wrt (<) (map (\<lambda>call. fst (snd call)) calls) \<longrightarrow>
      (\<exists>stored. storedMethodNumbers (recordMethodAttempts iid calls w) iid = Some stored
          \<and> distinct stored \<and> sorted_wrt (<) stored))"
proof -
  have held: "storedMethodNumbers (recordMethodAttempts iid calls w) iid
      = Some (map methodNumber ms @ map (\<lambda>call. fst (snd call)) calls)"
    if "canvasHolds w iid ms sm" for ms sm
  proof -
    from attempts_run [OF that, of calls] obtain w' where
      "recordMethodAttempts iid calls w = Inr w'"
      "canvasHolds w' iid (ms @ map freshAttempt calls) sm"
      by blast
    then show ?thesis
      by (auto simp: storedMethodNumbers_def canvasHolds_def fresh_numbers)
  qed
  have first: "storedMethodNumbers (recordMethodAttempts iid calls w) iid
      = Some (ns @ map (\<lambda>call. fst (snd call)) calls)"
    if "storedMethodNumbers (Inr w) iid = Some ns"
  proof -
    from that obtain c ms where "canvasStage w iid = Some c" "methods c = Some ms"
        "ns = map methodNumber ms"
      by (auto simp: storedMethodNumbers_def split: option.splits)
    then have "canvasHolds w iid ms (successfulMethod c)" "ns = map methodNumber ms"
      by (simp_all add: canvasHolds_def)
    with held show ?thesis by simp
  qed
  have second: "storedMethodNumbers (recordMethodAttempts iid calls w) iid
      = Some (map (\<lambda>call. fst (snd call)) calls)"
    if "currentSession w iid = Some s" "stages s CanvasExtraction = None" "calls \<noteq> []"
  proof -
    from attempts_run_fresh [OF that] obtain w' where
      "recordMethodAttempts iid calls w = Inr w'"
      "canvasHolds w' iid (map freshAttempt calls) None"
      by blast
    then show ?thesis
      by (auto simp: storedMethodNumbers_def canvasHolds_def fresh_numbers)
  qed
  from first second show ?thesis
    by (auto simp: strict_sorted_iff)
qed

theorem stored_ranks_follow_calls_witness:
  "(\<exists>s. currentSession startedSession ''img-1'' = Some s \<and> stages s CanvasExtraction = None)
   \<and> sorted_wrt (<) [1, 2 :: int]
   \<and> (\<exists>w. attemptedTwice = Inr w
         \<and> storedMethodNumbers (Inr w) ''img-1'' = Some [1, 2]
         \<and> distinct [1, 2 :: int]
         \<and> storedMethodNumbers (recordMethodAttempts ''img-1'' [(''tile-stitch'', 3, 1300)] w) ''img-1''
             = Some [1, 2, 3])"
proof -
  let ?calls = "rankedAttempts [(''viewport-render'', 1100), (''canvas-toDataURL'', 1200)]"
  obtain s where s: "currentSession startedSession ''img-1'' = Some s" "stages s CanvasExtraction = None"
    by (simp add: startedSession_def startImageSession_def logToConsole_def Let_def)
  have calls: "?calls \<noteq> []" "map (\<lambda>call. fst (snd call)) ?calls = [1, 2]"
    by (simp_all add: rankedAttempts_def)
  have twice: "attemptedTwice = recordMethodAttempts ''img-1'' ?calls startedSession"
    by (simp add: attemptedTwice_def)
  have sorted: "sorted_wrt (<) [1, 2 :: int]" by simp
  note T = stored_ranks_follow_calls [of startedSession "''img-1''" "[]" ?calls s, unfolded calls(2)]
  from T s calls(1) have stored: "storedMethodNumbers attemptedTwice ''img-1'' = Some [1, 2]"
    unfolding twice by blast
  from T s calls(1) sorted
  have "\<exists>stored. storedMethodNumbers attemptedTwice ''img-1'' = Some stored
          \<and> distinct stored \<and> sorted_wrt (<) stored"
    unfolding twice by blast
  with stored have distinct: "distinct [1, 2 :: int]" by simp
  from stored have "\<exists>w. attemptedTwice = Inr w"
    by (auto simp: storedMethodNumbers_def split: sum.splits)
  then obtain w where "attemptedTwice = Inr w" by blast
  with stored have w: "attemptedTwice = Inr w" "storedMethodNumbers (Inr w) ''img-1'' = Some [1, 2]"
    by simp_all
  from stored_ranks_follow_calls [of w "''img-1''" "[1, 2]" "[(''tile-stitch'', 3, 1300)]"] w(2)
  have "storedMethodNumbers (recordMethodAttempts ''img-1'' [(''tile-stitch'', 3, 1300)] w) ''img-1''
          = Some [1, 2, 3]"
    by simp
  with s sorted w distinct show ?thesis by blast
qed

end
